theory Spec2Isabelle
  imports Main
begin

section \<open>Go values, reflected types and errors\<close>

text \<open>
  The RPC server of \<^verbatim>\<open>pkgs/bft/rpc/lib/server/handlers.go\<close> dispatches by reflection.
  A \<^verbatim>\<open>reflect.Type\<close> is modelled by the datatype \<open>rtype\<close> (the Go types the binder
  distinguishes), \<^verbatim>\<open>reflect.Kind\<close> by \<open>kind\<close>, and a \<^verbatim>\<open>reflect.Value\<close> by a static
  type together with its dynamic content. Go strings and byte slices are sequences of
  8-bit characters, that is HOL strings.
\<close>

datatype kind =
    KBool | KInt | KInt8 | KInt16 | KInt32 | KInt64
  | KUint | KUint8 | KUint16 | KUint32 | KUint64
  | KString | KSlice | KPtr | KInterface | KStruct

datatype rtype =
    TBool | TInt | TInt8 | TInt16 | TInt32 | TInt64
  | TUint | TUint8 | TUint16 | TUint32 | TUint64
  | TString | TSlice rtype | TPtr rtype | TInterface string | TStruct string

text \<open>\<^verbatim>\<open>rt.Kind()\<close>.\<close>

fun Kind :: "rtype \<Rightarrow> kind" where
  "Kind TBool = KBool"
| "Kind TInt = KInt"
| "Kind TInt8 = KInt8"
| "Kind TInt16 = KInt16"
| "Kind TInt32 = KInt32"
| "Kind TInt64 = KInt64"
| "Kind TUint = KUint"
| "Kind TUint8 = KUint8"
| "Kind TUint16 = KUint16"
| "Kind TUint32 = KUint32"
| "Kind TUint64 = KUint64"
| "Kind TString = KString"
| "Kind (TSlice t) = KSlice"
| "Kind (TPtr t) = KPtr"
| "Kind (TInterface n) = KInterface"
| "Kind (TStruct n) = KStruct"

text \<open>
  Modelled from the spec: the declaration of \<^verbatim>\<open>types.RPCRequest\<close> lives in the package
  \<^verbatim>\<open>rpc/lib/types\<close>, which is not among the sources. A Request has a string id (empty
  for a notification), a method name and a raw params payload (\<^verbatim>\<open>json.RawMessage\<close>).
\<close>

record RPCRequest =
  ID :: string
  Method :: string
  Params :: string

text \<open>
  \<^verbatim>\<open>types.Context\<close>, the leading argument of every registered function: the JSON-RPC
  request it serves (if any), and whether the HTTP request and the WebSocket connection
  are set.
\<close>

record Context =
  JSONReq :: "RPCRequest option"
  HTTPReq :: bool
  WSConn :: bool

text \<open>
  The content of a Go value (what \<^verbatim>\<open>Interface()\<close> hands out) and Go errors. An error
  keeps the call that built it: \<open>ErrReturned v\<close> is \<^verbatim>\<open>errors.New("%v", v)\<close>,
  \<open>Wrap e msg\<close> is \<^verbatim>\<open>errors.Wrap(e, msg)\<close>, and so on for each error the handlers
  construct; \<open>Err msg\<close> is an error of a collaborator (a decoder, a registered
  function) with its message. \<open>VNil\<close> is the nil interface value (an interface that holds
  nothing); a nil pointer and a nil slice are values of their own, \<open>VNilPtr\<close> and
  \<open>VNilSlice\<close> with the element type: stored in an interface they make it non-nil.
\<close>

datatype gov =
    VNil
  | VBool bool
  | VInt int
  | VString string
  | VBytes string
  | VPtr rtype gov
  | VNilPtr rtype
  | VNilSlice rtype
  | VZeroStruct string
  | VContext Context
  | VError err
and err =
    Err string
  | Wrap err string
  | ErrParamCount nat "string list" nat "string list"
  | ErrUnknownParams err
  | ErrHexKind kind
  | ErrInvalidPath string
  | ErrReturned gov
  | ErrRecovered string
  | InvalidByteError char
  | ErrLength
  | RuntimeError string

datatype rvalue = RValue (Type_of: rtype) (Interface_of: gov)

text \<open>\<^verbatim>\<open>reflect.Zero(t)\<close>: the zero value of each type.\<close>

fun zero_content :: "rtype \<Rightarrow> gov" where
  "zero_content TBool = VBool False"
| "zero_content TString = VString []"
| "zero_content (TSlice t) = VNilSlice t"
| "zero_content (TPtr t) = VNilPtr t"
| "zero_content (TInterface n) = VNil"
| "zero_content (TStruct n) = VZeroStruct n"
| "zero_content t = VInt 0"

definition Zero :: "rtype \<Rightarrow> rvalue" where
  "Zero t = RValue t (zero_content t)"

text \<open>
  \<^verbatim>\<open>v.Interface() == nil\<close>: only a value of interface kind that holds nothing hands out
  the nil interface; a value of any other kind (a nil pointer, a nil slice, a number)
  hands out a non-nil interface, and so does an interface that holds a typed nil pointer.
\<close>

definition Interface_is_nil :: "rvalue \<Rightarrow> bool" where
  "Interface_is_nil v = (Kind (Type_of v) = KInterface \<and> Interface_of v = VNil)"

text \<open>
  A Go panic carries a value: an \<^verbatim>\<open>error\<close> (runtime errors are errors) or anything else
  (the reflect package panics with strings).
\<close>

datatype panic_val = PanicErr err | PanicStr string

text \<open>
  The outcome of fallible code: a value, a returned error, or a panic that unwinds the
  caller.
\<close>

datatype 'a result = Ok 'a | Fail err | Panics panic_val

section \<open>Requests, responses and the function registry\<close>

text \<open>
  Modelled from the spec: the declarations of \<^verbatim>\<open>types.RPCResponse\<close> and of the response
  constructors (\<^verbatim>\<open>RPCParseError\<close>, \<^verbatim>\<open>RPCInvalidRequestError\<close>,
  \<^verbatim>\<open>RPCMethodNotFoundError\<close>, \<^verbatim>\<open>RPCInvalidParamsError\<close>, \<^verbatim>\<open>RPCInternalError\<close>,
  \<^verbatim>\<open>NewRPCSuccessResponse\<close>) live in the package \<^verbatim>\<open>rpc/lib/types\<close>, which is not among
  the sources. A Response is \<open>Success{id, result}\<close> or
  \<open>Failure{id, errorCode, detail}\<close>; each constructor builds the Failure of the error
  class it is named after, with the id it is given.
\<close>

datatype error_class = ParseError | InvalidRequest | MethodNotFound | InvalidParams | InternalError

datatype RPCResponse =
    Success string gov
  | Failure string error_class "err option"

fun response_id :: "RPCResponse \<Rightarrow> string" where
  "response_id (Success i v) = i"
| "response_id (Failure i c d) = i"

definition RPCParseError :: "string \<Rightarrow> err \<Rightarrow> RPCResponse" where
  "RPCParseError i e = Failure i ParseError (Some e)"

definition RPCInvalidRequestError :: "string \<Rightarrow> err \<Rightarrow> RPCResponse" where
  "RPCInvalidRequestError i e = Failure i InvalidRequest (Some e)"

definition RPCMethodNotFoundError :: "string \<Rightarrow> RPCResponse" where
  "RPCMethodNotFoundError i = Failure i MethodNotFound None"

definition RPCInvalidParamsError :: "string \<Rightarrow> err \<Rightarrow> RPCResponse" where
  "RPCInvalidParamsError i e = Failure i InvalidParams (Some e)"

definition RPCInternalError :: "string \<Rightarrow> err \<Rightarrow> RPCResponse" where
  "RPCInternalError i e = Failure i InternalError (Some e)"

definition NewRPCSuccessResponse :: "string \<Rightarrow> gov \<Rightarrow> RPCResponse" where
  "NewRPCSuccessResponse i v = Success i v"

text \<open>
  The decoders the handlers call are collaborators outside the sources; they are
  parameters of the model, collected in one record:
  \<^item> \<open>json_requests\<close>: \<^verbatim>\<open>json.Unmarshal(b, &requests)\<close> into \<^verbatim>\<open>[]types.RPCRequest\<close>;
  \<^item> \<open>json_request\<close>: \<^verbatim>\<open>json.Unmarshal(b, &request)\<close> into one \<^verbatim>\<open>types.RPCRequest\<close>;
  \<^item> \<open>json_map\<close>: \<^verbatim>\<open>json.Unmarshal(raw, &m)\<close> into \<^verbatim>\<open>map[string]json.RawMessage\<close>;
  \<^item> \<open>json_array\<close>: \<^verbatim>\<open>json.Unmarshal(raw, &a)\<close> into \<^verbatim>\<open>[]json.RawMessage\<close>;
  \<^item> \<open>amino_UnmarshalJSON\<close>: \<^verbatim>\<open>amino.UnmarshalJSON(p, ptr)\<close> for a pointer to the given
    type, yielding the decoded content;
  \<^item> \<open>RE_INT\<close>: \<^verbatim>\<open>RE_INT.Match\<close>, the integer pattern declared in another file of the
    package.
\<close>

record codec =
  json_requests :: "string \<Rightarrow> err + RPCRequest list"
  json_request :: "string \<Rightarrow> err + RPCRequest"
  json_map :: "string \<Rightarrow> err + (string \<rightharpoonup> string)"
  json_array :: "string \<Rightarrow> err + string list"
  amino_UnmarshalJSON :: "rtype \<Rightarrow> string \<Rightarrow> err + gov"
  RE_INT :: "string \<Rightarrow> bool"

text \<open>
  \<^verbatim>\<open>RPCFunc\<close>: the introspected function. \<open>rpc_f\<close> is the underlying function as
  \<^verbatim>\<open>reflect.Value.Call\<close> runs it: it returns its results or panics. The registry
  \<^verbatim>\<open>funcMap\<close> is a map from method names to such functions, \<open>string \<rightharpoonup> RPCFunc\<close> (every
  entry holds a function, as \<^verbatim>\<open>NewRPCFunc\<close> and \<^verbatim>\<open>NewWSRPCFunc\<close> build them).
\<close>

datatype call_result = Returned "rvalue list" | Panicked panic_val

record RPCFunc =
  rpc_f :: "rvalue list \<Rightarrow> call_result"
  rpc_args :: "rtype list"
  rpc_returns :: "rtype list"
  rpc_argNames :: "string list"
  rpc_ws :: bool

text \<open>
  \<^verbatim>\<open>rpcFunc.f.Call(args)\<close>. The reflect package panics when the number of arguments
  differs from the number of inputs of the (non-variadic) function; otherwise the function
  runs.
\<close>

definition Call :: "RPCFunc \<Rightarrow> rvalue list \<Rightarrow> call_result" where
  "Call rpcFunc as =
     (if length as < length (rpc_args rpcFunc)
        then Panicked (PanicStr ''reflect: Call with too few input arguments'')
      else if length as > length (rpc_args rpcFunc)
        then Panicked (PanicStr ''reflect: Call with too many input arguments'')
      else rpc_f rpcFunc as)"

section \<open>Binding JSON params\<close>

text \<open>
  \<^verbatim>\<open>mapParamsToArgs\<close>: the loop over \<^verbatim>\<open>rpcFunc.argNames\<close>, from index \<open>i\<close> on. Reading
  \<^verbatim>\<open>rpcFunc.args[i+argsOffset]\<close> out of range panics.
\<close>

fun mapParamsToArgs_from ::
  "codec \<Rightarrow> RPCFunc \<Rightarrow> (string \<rightharpoonup> string) \<Rightarrow> nat \<Rightarrow> nat \<Rightarrow> string list \<Rightarrow> rvalue list result" where
  "mapParamsToArgs_from c rpcFunc params argsOffset i [] = Ok []"
| "mapParamsToArgs_from c rpcFunc params argsOffset i (argName # rest) =
     (if i + argsOffset < length (rpc_args rpcFunc) then
        (let argType = rpc_args rpcFunc ! (i + argsOffset) in
         (case (case params argName of
                  Some p \<Rightarrow>
                    if length p > 0 then
                      (case amino_UnmarshalJSON c argType p of
                         Inl e \<Rightarrow> Fail e
                       | Inr v \<Rightarrow> Ok (RValue argType v))
                    else Ok (Zero argType)
                | None \<Rightarrow> Ok (Zero argType)) of
            Ok v \<Rightarrow>
              (case mapParamsToArgs_from c rpcFunc params argsOffset (Suc i) rest of
                 Ok vs \<Rightarrow> Ok (v # vs)
               | Fail e \<Rightarrow> Fail e
               | Panics p \<Rightarrow> Panics p)
          | Fail e \<Rightarrow> Fail e
          | Panics p \<Rightarrow> Panics p))
      else Panics (PanicErr (RuntimeError ''index out of range'')))"

definition mapParamsToArgs ::
  "codec \<Rightarrow> RPCFunc \<Rightarrow> (string \<rightharpoonup> string) \<Rightarrow> nat \<Rightarrow> rvalue list result" where
  "mapParamsToArgs c rpcFunc params argsOffset =
     mapParamsToArgs_from c rpcFunc params argsOffset 0 (rpc_argNames rpcFunc)"

text \<open>\<^verbatim>\<open>arrayParamsToArgs\<close>: the count check, then the positional loop.\<close>

fun arrayParamsToArgs_from ::
  "codec \<Rightarrow> RPCFunc \<Rightarrow> nat \<Rightarrow> nat \<Rightarrow> string list \<Rightarrow> rvalue list result" where
  "arrayParamsToArgs_from c rpcFunc argsOffset i [] = Ok []"
| "arrayParamsToArgs_from c rpcFunc argsOffset i (p # rest) =
     (if i + argsOffset < length (rpc_args rpcFunc) then
        (let argType = rpc_args rpcFunc ! (i + argsOffset) in
         (case amino_UnmarshalJSON c argType p of
            Inl e \<Rightarrow> Fail e
          | Inr v \<Rightarrow>
              (case arrayParamsToArgs_from c rpcFunc argsOffset (Suc i) rest of
                 Ok vs \<Rightarrow> Ok (RValue argType v # vs)
               | Fail e \<Rightarrow> Fail e
               | Panics q \<Rightarrow> Panics q)))
      else Panics (PanicErr (RuntimeError ''index out of range'')))"

definition arrayParamsToArgs ::
  "codec \<Rightarrow> RPCFunc \<Rightarrow> string list \<Rightarrow> nat \<Rightarrow> rvalue list result" where
  "arrayParamsToArgs c rpcFunc params argsOffset =
     (if length (rpc_argNames rpcFunc) \<noteq> length params then
        Fail (ErrParamCount (length (rpc_argNames rpcFunc)) (rpc_argNames rpcFunc)
                (length params) params)
      else arrayParamsToArgs_from c rpcFunc argsOffset 0 params)"

text \<open>\<^verbatim>\<open>jsonParamsToArgs\<close>: first a map, otherwise an array, otherwise an error.\<close>

definition jsonParamsToArgs :: "codec \<Rightarrow> RPCFunc \<Rightarrow> string \<Rightarrow> rvalue list result" where
  "jsonParamsToArgs c rpcFunc raw =
     (case json_map c raw of
        Inr m \<Rightarrow> mapParamsToArgs c rpcFunc m 1
      | Inl e1 \<Rightarrow>
          (case json_array c raw of
             Inr a \<Rightarrow> arrayParamsToArgs c rpcFunc a 1
           | Inl e2 \<Rightarrow> Fail (ErrUnknownParams e2)))"

section \<open>Binding HTTP query parameters\<close>

text \<open>
  \<^verbatim>\<open>strings.HasPrefix\<close>, \<^verbatim>\<open>strings.HasSuffix\<close> and \<^verbatim>\<open>strings.ToLower\<close> (on the ASCII
  letters, which decide whether a string starts with \<^verbatim>\<open>0x\<close> after lowering).
\<close>

definition HasPrefix :: "string \<Rightarrow> string \<Rightarrow> bool" where
  "HasPrefix s pre = (take (length pre) s = pre)"

definition HasSuffix :: "string \<Rightarrow> string \<Rightarrow> bool" where
  "HasSuffix s suf = (length suf \<le> length s \<and> drop (length s - length suf) s = suf)"

definition ToLower :: "string \<Rightarrow> string" where
  "ToLower s =
     map (\<lambda>ch. let n = (of_char ch :: nat) in
                 if 65 \<le> n \<and> n \<le> 90 then char_of (n + 32) else ch) s"

text \<open>
  \<^verbatim>\<open>hex.DecodeString\<close> of the Go standard library: two hexadecimal digits (either case)
  per byte; an invalid digit is \<^verbatim>\<open>InvalidByteError\<close>, an odd length \<^verbatim>\<open>ErrLength\<close>.
\<close>

definition fromHexChar :: "char \<Rightarrow> nat option" where
  "fromHexChar ch =
     (let n = (of_char ch :: nat) in
      if 48 \<le> n \<and> n \<le> 57 then Some (n - 48)
      else if 97 \<le> n \<and> n \<le> 102 then Some (n - 97 + 10)
      else if 65 \<le> n \<and> n \<le> 70 then Some (n - 65 + 10)
      else None)"

fun hex_DecodeString :: "string \<Rightarrow> err + string" where
  "hex_DecodeString [] = Inr []"
| "hex_DecodeString [a] =
     (case fromHexChar a of None \<Rightarrow> Inl (InvalidByteError a) | Some x \<Rightarrow> Inl ErrLength)"
| "hex_DecodeString (a # b # rest) =
     (case fromHexChar a of
        None \<Rightarrow> Inl (InvalidByteError a)
      | Some x \<Rightarrow>
          (case fromHexChar b of
             None \<Rightarrow> Inl (InvalidByteError b)
           | Some y \<Rightarrow>
               (case hex_DecodeString rest of
                  Inl e \<Rightarrow> Inl e
                | Inr bs \<Rightarrow> Inr (char_of (x * 16 + y) # bs))))"

text \<open>\<^verbatim>\<open>jsonStringToArg\<close>.\<close>

definition jsonStringToArg :: "codec \<Rightarrow> rtype \<Rightarrow> string \<Rightarrow> err + rvalue" where
  "jsonStringToArg c rt arg =
     (case amino_UnmarshalJSON c rt arg of
        Inl e \<Rightarrow> Inl e
      | Inr v \<Rightarrow> Inr (RValue rt v))"

text \<open>
  The three results of \<^verbatim>\<open>nonJSONStringToArg\<close>, a \<^verbatim>\<open>(reflect.Value, error, bool)\<close>:
  \<open>Converted v\<close> is \<^verbatim>\<open>(v, nil, true)\<close>, \<open>NotConverted\<close> is \<^verbatim>\<open>(_, nil, false)\<close> and
  \<open>ConvError e\<close> is \<^verbatim>\<open>(_, e, false)\<close>.
\<close>

datatype conv = Converted rvalue | NotConverted | ConvError err

text \<open>\<^verbatim>\<open>v.String()\<close> of a value decoded into a Go string.\<close>

fun String_of :: "gov \<Rightarrow> string" where
  "String_of (VString s) = s"
| "String_of v = ''<invalid Value>''"

text \<open>\<^verbatim>\<open>_nonJSONStringToArg\<close> (\<^verbatim>\<open>rt.Kind()\<close> is not a pointer).\<close>

definition u_nonJSONStringToArg :: "codec \<Rightarrow> rtype \<Rightarrow> string \<Rightarrow> conv" where
  "u_nonJSONStringToArg c rt arg =
     (let isIntString = RE_INT c arg;
          isQuotedString = (HasPrefix arg [CHR 0x22] \<and> HasSuffix arg [CHR 0x22]);
          isHexString = HasPrefix (ToLower arg) ''0x'';
          expectingInt = (Kind rt \<in> {KInt, KUint, KInt8, KUint8, KInt16, KUint16,
                                     KInt32, KUint32, KInt64, KUint64});
          expectingString = (Kind rt = KString);
          expectingByteSlice = (case rt of TSlice el \<Rightarrow> Kind el = KUint8 | _ \<Rightarrow> False)
      in
      if isIntString \<and> expectingInt then
        (case jsonStringToArg c rt ([CHR 0x22] @ arg @ [CHR 0x22]) of
           Inl e \<Rightarrow> ConvError e
         | Inr rv \<Rightarrow> Converted rv)
      else if isHexString then
        (if \<not> expectingString \<and> \<not> expectingByteSlice then ConvError (ErrHexKind (Kind rt))
         else
           (case hex_DecodeString (drop 2 arg) of
              Inl e \<Rightarrow> ConvError e
            | Inr val \<Rightarrow>
                if Kind rt = KString then Converted (RValue TString (VString val))
                else Converted (RValue (TSlice TUint8) (VBytes val))))
      else if isQuotedString \<and> expectingByteSlice then
        (case amino_UnmarshalJSON c TString arg of
           Inl e \<Rightarrow> ConvError e
         | Inr v \<Rightarrow> Converted (RValue (TSlice TUint8) (VBytes (String_of v))))
      else NotConverted)"

text \<open>\<^verbatim>\<open>nonJSONStringToArg\<close>: pointer types are unwrapped, the result is boxed back.\<close>

fun nonJSONStringToArg :: "codec \<Rightarrow> rtype \<Rightarrow> string \<Rightarrow> conv" where
  "nonJSONStringToArg c (TPtr el) arg =
     (case nonJSONStringToArg c el arg of
        ConvError e \<Rightarrow> ConvError e
      | Converted rv \<Rightarrow> Converted (RValue (TPtr el) (VPtr el (Interface_of rv)))
      | NotConverted \<Rightarrow> NotConverted)"
| "nonJSONStringToArg c rt arg = u_nonJSONStringToArg c rt arg"

text \<open>
  An HTTP request as the handlers read it: the URL path, the body (\<^verbatim>\<open>ioutil.ReadAll\<close>
  may fail) and the query or form value \<^verbatim>\<open>GetParam(r, name)\<close> of each name (empty when
  absent).
\<close>

record HTTPRequest =
  Path :: string
  Body :: "err + string"
  GetParam :: "string \<Rightarrow> string"

text \<open>\<^verbatim>\<open>httpParamsToArgs\<close>: the loop over \<^verbatim>\<open>rpcFunc.argNames\<close>, from index \<open>i\<close> on.\<close>

fun httpParamsToArgs_from ::
  "codec \<Rightarrow> RPCFunc \<Rightarrow> HTTPRequest \<Rightarrow> nat \<Rightarrow> string list \<Rightarrow> rvalue list result" where
  "httpParamsToArgs_from c rpcFunc r i [] = Ok []"
| "httpParamsToArgs_from c rpcFunc r i (name # rest) =
     (if i + 1 < length (rpc_args rpcFunc) then
        (let argType = rpc_args rpcFunc ! (i + 1);
             arg = GetParam r name
         in
         (case (if arg = [] then Ok (Zero argType)
                else
                  (case nonJSONStringToArg c argType arg of
                     ConvError e \<Rightarrow> Fail e
                   | Converted v \<Rightarrow> Ok v
                   | NotConverted \<Rightarrow>
                       (case jsonStringToArg c argType arg of
                          Inl e \<Rightarrow> Fail e
                        | Inr v \<Rightarrow> Ok v))) of
            Ok v \<Rightarrow>
              (case httpParamsToArgs_from c rpcFunc r (Suc i) rest of
                 Ok vs \<Rightarrow> Ok (v # vs)
               | Fail e \<Rightarrow> Fail e
               | Panics q \<Rightarrow> Panics q)
          | Fail e \<Rightarrow> Fail e
          | Panics q \<Rightarrow> Panics q))
      else Panics (PanicErr (RuntimeError ''index out of range'')))"

definition httpParamsToArgs :: "codec \<Rightarrow> RPCFunc \<Rightarrow> HTTPRequest \<Rightarrow> rvalue list result" where
  "httpParamsToArgs c rpcFunc r = httpParamsToArgs_from c rpcFunc r 0 (rpc_argNames rpcFunc)"

section \<open>Dispatch\<close>

text \<open>
  \<^verbatim>\<open>unreflectResult\<close>: reads \<^verbatim>\<open>returns[1]\<close> and \<^verbatim>\<open>returns[0]\<close> (out of range panics).
  The error branch is taken when \<^verbatim>\<open>errV.Interface() != nil\<close>. A result of interface kind is
  returned as a pointer to it.
\<close>

definition unreflectResult :: "rvalue list \<Rightarrow> gov result" where
  "unreflectResult returns =
     (if length returns < 2 then Panics (PanicErr (RuntimeError ''index out of range''))
      else
        (let errV = returns ! 1 in
         if \<not> Interface_is_nil errV then Fail (ErrReturned (Interface_of errV))
         else
           (let rv = returns ! 0 in
            if Kind (Type_of rv) = KInterface then Ok (VPtr (Type_of rv) (Interface_of rv))
            else Ok (Interface_of rv))))"

text \<open>\<^verbatim>\<open>reflect.ValueOf(ctx)\<close> for a \<^verbatim>\<open>*types.Context\<close>.\<close>

definition ValueOf_ctx :: "Context \<Rightarrow> rvalue" where
  "ValueOf_ctx ctx = RValue (TPtr (TStruct ''types.Context'')) (VContext ctx)"

text \<open>
  What an HTTP handler does with the response writer: the 404 of \<^verbatim>\<open>http.NotFound\<close>, the
  listing of endpoints, one response, an array of responses, nothing at all, or a panic
  that leaves the handler.
\<close>

datatype http_output =
    NotFound
  | ListOfEndpoints
  | WriteRPCResponseHTTP RPCResponse
  | WriteRPCResponseArrayHTTP "RPCResponse list"
  | NoResponse
  | HandlerPanic panic_val

text \<open>\<^verbatim>\<open>makeHTTPHandler\<close>: the handler of the path \<^verbatim>\<open>/<name>\<close>.\<close>

definition makeHTTPHandler :: "codec \<Rightarrow> RPCFunc \<Rightarrow> HTTPRequest \<Rightarrow> http_output" where
  "makeHTTPHandler c rpcFunc r =
     (if rpc_ws rpcFunc then WriteRPCResponseHTTP (RPCMethodNotFoundError [])
      else
        (let ctx = \<lparr>JSONReq = None, HTTPReq = True, WSConn = False\<rparr> in
         (case httpParamsToArgs c rpcFunc r of
            Fail e \<Rightarrow>
              WriteRPCResponseHTTP
                (RPCInvalidParamsError [] (Wrap e ''error converting http params to arguments''))
          | Panics q \<Rightarrow> HandlerPanic q
          | Ok fnArgs \<Rightarrow>
              (case Call rpcFunc ([ValueOf_ctx ctx] @ fnArgs) of
                 Panicked q \<Rightarrow> HandlerPanic q
               | Returned returns \<Rightarrow>
                   (case unreflectResult returns of
                      Panics q \<Rightarrow> HandlerPanic q
                    | Fail e \<Rightarrow> WriteRPCResponseHTTP (RPCInternalError [] e)
                    | Ok res \<Rightarrow> WriteRPCResponseHTTP (NewRPCSuccessResponse [] res))))))"

section \<open>The JSON-RPC endpoint\<close>

text \<open>
  One iteration of the loop of \<^verbatim>\<open>makeJSONRPCHandler\<close>: the request is skipped
  (\<^verbatim>\<open>continue\<close> with nothing appended), a response is appended, or the iteration panics.
\<close>

datatype step = Skip | Respond RPCResponse | Fault panic_val

text \<open>
  The arguments of the call: the context, then the bound params when the params payload
  is not empty (\<^verbatim>\<open>len(request.Params) > 0\<close>); a binding error is returned as such.
\<close>

definition jsonrpc_args :: "codec \<Rightarrow> RPCFunc \<Rightarrow> Context \<Rightarrow> RPCRequest \<Rightarrow> rvalue list result" where
  "jsonrpc_args c rpcFunc ctx request =
     (if length (Params request) > 0 then
        (case jsonParamsToArgs c rpcFunc (Params request) of
           Fail e \<Rightarrow> Fail e
         | Panics q \<Rightarrow> Panics q
         | Ok fnArgs \<Rightarrow> Ok ([ValueOf_ctx ctx] @ fnArgs))
      else Ok [ValueOf_ctx ctx])"

definition jsonrpc_request ::
  "codec \<Rightarrow> (string \<rightharpoonup> RPCFunc) \<Rightarrow> HTTPRequest \<Rightarrow> RPCRequest \<Rightarrow> step" where
  "jsonrpc_request c funcMap r request =
     (if ID request = [] then Skip
      else if length (Path r) > 1 then
        Respond (RPCInvalidRequestError (ID request) (ErrInvalidPath (Path r)))
      else
        (case funcMap (Method request) of
           None \<Rightarrow> Respond (RPCMethodNotFoundError (ID request))
         | Some rpcFunc \<Rightarrow>
             if rpc_ws rpcFunc then Respond (RPCMethodNotFoundError (ID request))
             else
               (let ctx = \<lparr>JSONReq = Some request, HTTPReq = True, WSConn = False\<rparr> in
                (case jsonrpc_args c rpcFunc ctx request of
                   Fail e \<Rightarrow>
                     Respond (RPCInvalidParamsError (ID request)
                       (Wrap e ''error converting json params to arguments''))
                 | Panics q \<Rightarrow> Fault q
                 | Ok as \<Rightarrow>
                     (case Call rpcFunc as of
                        Panicked q \<Rightarrow> Fault q
                      | Returned returns \<Rightarrow>
                          (case unreflectResult returns of
                             Panics q \<Rightarrow> Fault q
                           | Fail e \<Rightarrow> Respond (RPCInternalError (ID request) e)
                           | Ok res \<Rightarrow> Respond (NewRPCSuccessResponse (ID request) res)))))))"

text \<open>
  The loop over the requests, appending to \<^verbatim>\<open>responses\<close>; \<open>Inl q\<close> is a panic that
  leaves the loop.
\<close>

fun jsonrpc_loop ::
  "codec \<Rightarrow> (string \<rightharpoonup> RPCFunc) \<Rightarrow> HTTPRequest \<Rightarrow> RPCRequest list \<Rightarrow> RPCResponse list
     \<Rightarrow> panic_val + RPCResponse list" where
  "jsonrpc_loop c funcMap r [] responses = Inr responses"
| "jsonrpc_loop c funcMap r (request # rest) responses =
     (case jsonrpc_request c funcMap r request of
        Skip \<Rightarrow> jsonrpc_loop c funcMap r rest responses
      | Respond resp \<Rightarrow> jsonrpc_loop c funcMap r rest (responses @ [resp])
      | Fault q \<Rightarrow> Inl q)"

text \<open>\<^verbatim>\<open>makeJSONRPCHandler\<close>.\<close>

definition makeJSONRPCHandler ::
  "codec \<Rightarrow> (string \<rightharpoonup> RPCFunc) \<Rightarrow> HTTPRequest \<Rightarrow> http_output" where
  "makeJSONRPCHandler c funcMap r =
     (case Body r of
        Inl e \<Rightarrow>
          WriteRPCResponseHTTP (RPCInvalidRequestError [] (Wrap e ''error reading request body''))
      | Inr b \<Rightarrow>
          if length b = 0 then ListOfEndpoints
          else
            (case (case json_requests c b of
                     Inr requests \<Rightarrow> Inr requests
                   | Inl e1 \<Rightarrow>
                       (case json_request c b of
                          Inl e2 \<Rightarrow> Inl e2
                        | Inr request \<Rightarrow> Inr [request])) of
               Inl e \<Rightarrow>
                 WriteRPCResponseHTTP (RPCParseError [] (Wrap e ''error unmarshalling request''))
             | Inr requests \<Rightarrow>
                 (case jsonrpc_loop c funcMap r requests [] of
                    Inl q \<Rightarrow> HandlerPanic q
                  | Inr responses \<Rightarrow>
                      if length responses > 0 then WriteRPCResponseArrayHTTP responses
                      else NoResponse)))"

text \<open>\<^verbatim>\<open>handleInvalidJSONRPCPaths\<close>.\<close>

definition handleInvalidJSONRPCPaths ::
  "(HTTPRequest \<Rightarrow> http_output) \<Rightarrow> HTTPRequest \<Rightarrow> http_output" where
  "handleInvalidJSONRPCPaths next_handler r =
     (if Path r \<noteq> ''/'' then NotFound else next_handler r)"

text \<open>The handler \<^verbatim>\<open>RegisterRPCFuncs\<close> installs at the pattern \<^verbatim>\<open>/\<close>.\<close>

definition jsonrpc_endpoint ::
  "codec \<Rightarrow> (string \<rightharpoonup> RPCFunc) \<Rightarrow> HTTPRequest \<Rightarrow> http_output" where
  "jsonrpc_endpoint c funcMap r =
     handleInvalidJSONRPCPaths (makeJSONRPCHandler c funcMap) r"

section \<open>The WebSocket connection\<close>

text \<open>
  The read routine runs concurrently with the write routine; it is modelled by what it
  does, in order, on the frames it is given. \<open>WriteRPCResponse\<close> is the blocking push
  onto the write channel (\<^verbatim>\<open>wsc.WriteRPCResponse\<close>), \<open>TryWriteRPCResponse\<close> the push that
  does not block, \<open>Stop\<close> is \<^verbatim>\<open>wsc.Stop()\<close>, \<open>CloseConn\<close> is \<^verbatim>\<open>wsc.baseConn.Close()\<close> and
  \<open>GoReadRoutine\<close> is \<^verbatim>\<open>go wsc.readRoutine()\<close>.
\<close>

datatype ws_effect =
    SetPongHandler
  | SetReadDeadline
  | WriteRPCResponse RPCResponse
  | TryWriteRPCResponse RPCResponse
  | Stop
  | CloseConn
  | GoReadRoutine

text \<open>
  What one iteration of the read loop meets: the quit channel is closed, or
  \<^verbatim>\<open>ReadMessage\<close> returns an error or a message.
\<close>

datatype ws_event = Quit | ReadError err | Message string

text \<open>
  The arguments of the call in the read loop: the context, then the bound params when
  the params payload is not empty (\<^verbatim>\<open>len(request.Params) > 0\<close>).
\<close>

definition ws_args :: "codec \<Rightarrow> RPCFunc \<Rightarrow> Context \<Rightarrow> RPCRequest \<Rightarrow> rvalue list result" where
  "ws_args c rpcFunc ctx request =
     (if length (Params request) > 0 then
        (case jsonParamsToArgs c rpcFunc (Params request) of
           Fail e \<Rightarrow> Fail e
         | Panics q \<Rightarrow> Panics q
         | Ok fnArgs \<Rightarrow> Ok ([ValueOf_ctx ctx] @ fnArgs))
      else Ok [ValueOf_ctx ctx])"

text \<open>
  The body of the read loop after a message was read: the response pushed (each push is
  followed by \<^verbatim>\<open>continue\<close>), nothing for a notification, or a panic.
\<close>

definition ws_message :: "codec \<Rightarrow> (string \<rightharpoonup> RPCFunc) \<Rightarrow> string \<Rightarrow> step" where
  "ws_message c funcMap inp =
     (case json_request c inp of
        Inl e \<Rightarrow> Respond (RPCParseError [] (Wrap e ''error unmarshaling request''))
      | Inr request \<Rightarrow>
          if ID request = [] then Skip
          else
            (case funcMap (Method request) of
               None \<Rightarrow> Respond (RPCMethodNotFoundError (ID request))
             | Some rpcFunc \<Rightarrow>
                 (let ctx = \<lparr>JSONReq = Some request, HTTPReq = False, WSConn = True\<rparr> in
                  (case ws_args c rpcFunc ctx request of
                     Fail e \<Rightarrow>
                       Respond (RPCInternalError (ID request)
                         (Wrap e ''error converting json params to arguments''))
                   | Panics q \<Rightarrow> Fault q
                   | Ok as \<Rightarrow>
                       (case Call rpcFunc as of
                          Panicked q \<Rightarrow> Fault q
                        | Returned returns \<Rightarrow>
                            (case unreflectResult returns of
                               Panics q \<Rightarrow> Fault q
                             | Fail e \<Rightarrow> Respond (RPCInternalError (ID request) e)
                             | Ok res \<Rightarrow>
                                 Respond (NewRPCSuccessResponse (ID request) res)))))))"

text \<open>
  The error the deferred function of \<^verbatim>\<open>readRoutine\<close> makes of a recovered panic value:
  the value itself when it is an error, \<^verbatim>\<open>fmt.Errorf("WSJSONRPC: %v", r)\<close> otherwise.
\<close>

fun recovered_err :: "panic_val \<Rightarrow> err" where
  "recovered_err (PanicErr e) = e"
| "recovered_err (PanicStr s) = ErrRecovered s"

text \<open>
  \<^verbatim>\<open>readRoutine\<close>: it sets the pong handler and runs the loop. The loop returns (and the
  deferred function closes the connection) when the quit channel is closed or a read
  fails; when an iteration panics, the deferred function pushes an internal error with
  the id \<^verbatim>\<open>"unknown"\<close> and starts \<^verbatim>\<open>readRoutine\<close> again, which goes on with the frames that
  follow. With no event left the routine waits in \<^verbatim>\<open>ReadMessage\<close>.
\<close>

fun readRoutine :: "codec \<Rightarrow> (string \<rightharpoonup> RPCFunc) \<Rightarrow> ws_event list \<Rightarrow> ws_effect list"
and readLoop :: "codec \<Rightarrow> (string \<rightharpoonup> RPCFunc) \<Rightarrow> ws_event list \<Rightarrow> ws_effect list" where
  "readRoutine c funcMap evs = SetPongHandler # readLoop c funcMap evs"
| "readLoop c funcMap [] = []"
| "readLoop c funcMap (Quit # evs) = [CloseConn]"
| "readLoop c funcMap (ReadError e # evs) = [SetReadDeadline, Stop, CloseConn]"
| "readLoop c funcMap (Message inp # evs) =
     SetReadDeadline #
     (case ws_message c funcMap inp of
        Skip \<Rightarrow> readLoop c funcMap evs
      | Respond resp \<Rightarrow> WriteRPCResponse resp # readLoop c funcMap evs
      | Fault q \<Rightarrow>
          [WriteRPCResponse (RPCInternalError ''unknown'' (recovered_err q)), GoReadRoutine]
          @ readRoutine c funcMap evs)"

text \<open>The responses a trace pushes onto the write channel, in order.\<close>

fun pushed :: "ws_effect list \<Rightarrow> RPCResponse list" where
  "pushed [] = []"
| "pushed (WriteRPCResponse resp # es) = resp # pushed es"
| "pushed (TryWriteRPCResponse resp # es) = resp # pushed es"
| "pushed (e # es) = pushed es"

text \<open>
  The ping handler of \<^verbatim>\<open>writeRoutine\<close>: a send on the channel \<^verbatim>\<open>pongs\<close> (capacity 1) in a
  \<^verbatim>\<open>select\<close> with a \<^verbatim>\<open>default\<close> branch. The channel is the list of the messages it holds,
  oldest first.
\<close>

definition pingHandler :: "string list \<Rightarrow> string \<Rightarrow> string list" where
  "pingHandler pongs m = (if length pongs < 1 then pongs @ [m] else pongs)"

text \<open>
  The branch \<^verbatim>\<open>case m := <-pongs\<close> of the write loop: the message received (which is
  written as the pong) and the channel after the receive; \<open>None\<close> when the channel is
  empty and the branch is not ready.
\<close>

definition recv_pong :: "string list \<Rightarrow> (string \<times> string list) option" where
  "recv_pong pongs = (case pongs of [] \<Rightarrow> None | m # rest \<Rightarrow> Some (m, rest))"

section \<open>An example registry\<close>

text \<open>
  The examples below run the handlers on a registry holding \<^verbatim>\<open>Echo(ctx, s string)\<close>, which
  returns \<^verbatim>\<open>(s, nil)\<close>, \<^verbatim>\<open>Boom(ctx)\<close>, which panics, \<^verbatim>\<open>Deny(ctx)\<close>, which returns the
  error \<^verbatim>\<open>denied\<close>, and \<^verbatim>\<open>Status(ctx)\<close>, whose result type is an interface and which
  returns the integer 7 in it. \<open>example_codec\<close> gives the
  decoders' results at the payloads the examples use (every other payload is refused):
  it stands for \<^verbatim>\<open>encoding/json\<close> and amino on these inputs only. \<open>RE_INT\<close> is an optional
  minus sign followed by decimal digits.
\<close>

definition Echo :: RPCFunc where
  "Echo =
     \<lparr>rpc_f = (\<lambda>as. case as of
                 [ctx, s] \<Rightarrow> Returned [RValue TString (Interface_of s),
                                       RValue (TInterface ''error'') VNil]
               | _ \<Rightarrow> Panicked (PanicStr ''Echo: wrong number of arguments'')),
      rpc_args = [TPtr (TStruct ''types.Context''), TString],
      rpc_returns = [TString, TInterface ''error''],
      rpc_argNames = [''s''],
      rpc_ws = False\<rparr>"

definition Boom :: RPCFunc where
  "Boom =
     \<lparr>rpc_f = (\<lambda>as. Panicked (PanicStr ''boom'')),
      rpc_args = [TPtr (TStruct ''types.Context'')],
      rpc_returns = [TString, TInterface ''error''],
      rpc_argNames = [],
      rpc_ws = False\<rparr>"

definition Deny :: RPCFunc where
  "Deny =
     \<lparr>rpc_f = (\<lambda>as. Returned [RValue TString (VString []),
                               RValue (TInterface ''error'') (VError (Err ''denied''))]),
      rpc_args = [TPtr (TStruct ''types.Context'')],
      rpc_returns = [TString, TInterface ''error''],
      rpc_argNames = [],
      rpc_ws = False\<rparr>"

definition Status :: RPCFunc where
  "Status =
     \<lparr>rpc_f = (\<lambda>as. Returned [RValue (TInterface ''Result'') (VInt 7),
                               RValue (TInterface ''error'') VNil]),
      rpc_args = [TPtr (TStruct ''types.Context'')],
      rpc_returns = [TInterface ''Result'', TInterface ''error''],
      rpc_argNames = [],
      rpc_ws = False\<rparr>"

definition example_funcMap :: "string \<rightharpoonup> RPCFunc" where
  "example_funcMap =
     [''Echo'' \<mapsto> Echo, ''Boom'' \<mapsto> Boom, ''Deny'' \<mapsto> Deny, ''Status'' \<mapsto> Status]"

definition is_digit :: "char \<Rightarrow> bool" where
  "is_digit ch = (48 \<le> (of_char ch :: nat) \<and> (of_char ch :: nat) \<le> 57)"

definition example_RE_INT :: "string \<Rightarrow> bool" where
  "example_RE_INT s =
     (case s of
        [] \<Rightarrow> False
      | ch # ds \<Rightarrow>
          if ch = CHR ''-'' then ds \<noteq> [] \<and> list_all is_digit ds
          else list_all is_digit (ch # ds))"

definition example_unmarshal :: "rtype \<Rightarrow> string \<Rightarrow> err + gov" where
  "example_unmarshal rt p =
     (if rt = TString \<and> 2 \<le> length p \<and> hd p = CHR 0x22 \<and> last p = CHR 0x22
         \<and> CHR 0x22 \<notin> set (butlast (tl p)) \<and> CHR 0x5C \<notin> set (butlast (tl p))
      then Inr (VString (butlast (tl p)))
      else Inl (Err ''cannot decode''))"

definition example_codec :: codec where
  \<open>example_codec =
     \<lparr>json_requests = (\<lambda>b.
        if b = ''[{"id":"1","method":"Echo","params":["a"]},{"id":"","method":"Echo","params":["b"]},{"id":"2","method":"Missing"}]''
        then Inr [\<lparr>ID = ''1'', Method = ''Echo'', Params = ''["a"]''\<rparr>,
                  \<lparr>ID = '''', Method = ''Echo'', Params = ''["b"]''\<rparr>,
                  \<lparr>ID = ''2'', Method = ''Missing'', Params = ''''\<rparr>]
        else if b = ''[{"id":"1","method":"Echo","params":["a"]},{"id":"3","method":"Echo"},{"id":"2","method":"Missing"}]''
        then Inr [\<lparr>ID = ''1'', Method = ''Echo'', Params = ''["a"]''\<rparr>,
                  \<lparr>ID = ''3'', Method = ''Echo'', Params = ''''\<rparr>,
                  \<lparr>ID = ''2'', Method = ''Missing'', Params = ''''\<rparr>]
        else Inl (Err ''cannot unmarshal into []RPCRequest'')),
      json_request = (\<lambda>b.
        if b = ''{"id":"7","method":"Echo"}''
        then Inr \<lparr>ID = ''7'', Method = ''Echo'', Params = ''''\<rparr>
        else if b = ''{"id":"8","method":"Boom"}''
        then Inr \<lparr>ID = ''8'', Method = ''Boom'', Params = ''''\<rparr>
        else if b = ''{"id":"3","method":"Echo","params":["a","b"]}''
        then Inr \<lparr>ID = ''3'', Method = ''Echo'', Params = ''["a","b"]''\<rparr>
        else if b = ''{"id":"4","method":"Missing"}''
        then Inr \<lparr>ID = ''4'', Method = ''Missing'', Params = ''''\<rparr>
        else if b = ''{"id":"9","method":"Deny"}''
        then Inr \<lparr>ID = ''9'', Method = ''Deny'', Params = ''''\<rparr>
        else if b = ''{"id":"10","method":"Status"}''
        then Inr \<lparr>ID = ''10'', Method = ''Status'', Params = ''''\<rparr>
        else if b = ''{"id":"6","method":"Echo","params":{}}''
        then Inr \<lparr>ID = ''6'', Method = ''Echo'', Params = ''{}''\<rparr>
        else if b = ''{"id":"5","method":"Echo","params":{"s":"hi"}}''
        then Inr \<lparr>ID = ''5'', Method = ''Echo'', Params = ''{"s":"hi"}''\<rparr>
        else Inl (Err ''cannot unmarshal into RPCRequest'')),
      json_map = (\<lambda>raw.
        if raw = ''{"s":"hi"}'' then Inr [''s'' \<mapsto> ''"hi"'']
        else if raw = ''{}'' then Inr Map.empty
        else Inl (Err ''cannot unmarshal into map'')),
      json_array = (\<lambda>raw.
        if raw = ''["a"]'' then Inr [''"a"'']
        else if raw = ''["b"]'' then Inr [''"b"'']
        else if raw = ''["a","b"]'' then Inr [''"a"'', ''"b"'']
        else Inl (Err ''cannot unmarshal into array'')),
      amino_UnmarshalJSON = example_unmarshal,
      RE_INT = example_RE_INT\<rparr>\<close>

section \<open>Binding from a mapping payload\<close>

text \<open>
  Facts about the loop of \<^verbatim>\<open>mapParamsToArgs\<close>, started at any index: the length of the
  result, each bound value, when the loop succeeds and when it fails.
\<close>

lemma mapParamsToArgs_from_length:
  "mapParamsToArgs_from c rf params off i names = Ok vs \<Longrightarrow> length vs = length names"
  by (induction names arbitrary: i vs)
     (auto simp: Let_def split: if_splits option.splits sum.splits result.splits)

lemma mapParamsToArgs_from_nth:
  "mapParamsToArgs_from c rf params off i names = Ok vs \<Longrightarrow> j < length names \<Longrightarrow>
   (case params (names ! j) of
      Some p \<Rightarrow>
        if p \<noteq> [] then
          amino_UnmarshalJSON c (rpc_args rf ! (i + j + off)) p = Inr (Interface_of (vs ! j))
          \<and> Type_of (vs ! j) = rpc_args rf ! (i + j + off)
        else vs ! j = Zero (rpc_args rf ! (i + j + off))
    | None \<Rightarrow> vs ! j = Zero (rpc_args rf ! (i + j + off)))"
proof (induction names arbitrary: i vs j)
  case Nil
  then show ?case by simp
next
  case (Cons a names)
  from Cons.prems(1) obtain v vs' where
    vs: "vs = v # vs'" and
    rest: "mapParamsToArgs_from c rf params off (Suc i) names = Ok vs'" and
    hd: "(case params a of
            Some p \<Rightarrow>
              if length p > 0 then
                (case amino_UnmarshalJSON c (rpc_args rf ! (i + off)) p of
                   Inl e \<Rightarrow> Fail e
                 | Inr v \<Rightarrow> Ok (RValue (rpc_args rf ! (i + off)) v))
              else Ok (Zero (rpc_args rf ! (i + off)))
          | None \<Rightarrow> Ok (Zero (rpc_args rf ! (i + off)))) = Ok v"
    by (auto simp: Let_def split: if_splits result.splits)
  show ?case
  proof (cases j)
    case 0
    with hd vs show ?thesis
      by (auto split: option.splits if_splits sum.splits)
  next
    case (Suc k)
    with Cons.prems(2) have "k < length names" by simp
    from Cons.IH[OF rest this] Suc vs show ?thesis by (auto split: option.splits)
  qed
qed

lemma mapParamsToArgs_from_total:
  "i + length names + off \<le> length (rpc_args rf) \<Longrightarrow>
   (\<forall>j<length names. \<forall>p. params (names ! j) = Some p \<longrightarrow> p \<noteq> [] \<longrightarrow>
      (\<exists>v. amino_UnmarshalJSON c (rpc_args rf ! (i + j + off)) p = Inr v)) \<Longrightarrow>
   \<exists>vs. mapParamsToArgs_from c rf params off i names = Ok vs"
proof (induction names arbitrary: i)
  case Nil
  then show ?case by simp
next
  case (Cons a names)
  have range: "Suc i + length names + off \<le> length (rpc_args rf)"
    using Cons.prems(1) by simp
  have dec: "\<forall>j<length names. \<forall>p. params (names ! j) = Some p \<longrightarrow> p \<noteq> [] \<longrightarrow>
      (\<exists>v. amino_UnmarshalJSON c (rpc_args rf ! (Suc i + j + off)) p = Inr v)"
  proof (intro allI impI)
    fix j p assume "j < length names" "params (names ! j) = Some p" "p \<noteq> []"
    with Cons.prems(2)[rule_format, of "Suc j" p]
    show "\<exists>v. amino_UnmarshalJSON c (rpc_args rf ! (Suc i + j + off)) p = Inr v" by simp
  qed
  from Cons.IH[OF range dec] obtain vs where
    rest: "mapParamsToArgs_from c rf params off (Suc i) names = Ok vs" by blast
  have hd: "\<forall>p. params a = Some p \<longrightarrow> p \<noteq> [] \<longrightarrow>
      (\<exists>v. amino_UnmarshalJSON c (rpc_args rf ! (i + off)) p = Inr v)"
    using Cons.prems(2)[rule_format, of 0] by simp
  have inr: "i + off < length (rpc_args rf)" using Cons.prems(1) by simp
  show ?case
  proof (cases "params a")
    case None
    with rest inr show ?thesis by simp
  next
    case (Some p)
    show ?thesis
    proof (cases "p = []")
      case True
      with Some rest inr show ?thesis by simp
    next
      case False
      with hd Some obtain v where "amino_UnmarshalJSON c (rpc_args rf ! (i + off)) p = Inr v"
        by blast
      with Some False rest inr show ?thesis by simp
    qed
  qed
qed

lemma mapParamsToArgs_from_fails:
  "i + length names + off \<le> length (rpc_args rf) \<Longrightarrow> j < length names \<Longrightarrow>
   params (names ! j) = Some p \<Longrightarrow> p \<noteq> [] \<Longrightarrow>
   amino_UnmarshalJSON c (rpc_args rf ! (i + j + off)) p = Inl e \<Longrightarrow>
   \<exists>e'. mapParamsToArgs_from c rf params off i names = Fail e'"
proof (induction names arbitrary: i j)
  case Nil
  then show ?case by simp
next
  case (Cons a names)
  have inr: "i + off < length (rpc_args rf)" using Cons.prems(1) by simp
  show ?case
  proof (cases j)
    case 0
    with Cons.prems inr show ?thesis by simp
  next
    case (Suc k)
    have "\<exists>e'. mapParamsToArgs_from c rf params off (Suc i) names = Fail e'"
      using Cons.IH[of "Suc i" k] Cons.prems Suc by simp
    then obtain e' where "mapParamsToArgs_from c rf params off (Suc i) names = Fail e'" ..
    with inr show ?thesis
      by (auto simp: Let_def split: option.splits sum.splits)
  qed
qed

text \<open>
  C7. Binding from a mapping payload, for a function whose declared names all have a type
  (\<^verbatim>\<open>len(argNames) + argsOffset <= len(args)\<close>, so that no index is out of range):
  \<^item> if some declared parameter is present in the mapping with a non-empty raw value that
    does not decode into its declared type, the whole binding fails with an error;
  \<^item> if every present, non-empty value decodes, the binding succeeds with one value per
    declared parameter: the decoded value, of the declared type, for a present non-empty
    parameter, and the zero value of the declared type for a parameter that is absent or
    whose raw value is empty.
\<close>

theorem mapParamsToArgs_decodes_present_zeroes_absent:
  assumes "length (rpc_argNames rpcFunc) + off \<le> length (rpc_args rpcFunc)"
  shows
    "((\<exists>j p e. j < length (rpc_argNames rpcFunc)
          \<and> params (rpc_argNames rpcFunc ! j) = Some p \<and> p \<noteq> []
          \<and> amino_UnmarshalJSON c (rpc_args rpcFunc ! (j + off)) p = Inl e)
        \<longrightarrow> (\<exists>e'. mapParamsToArgs c rpcFunc params off = Fail e'))
     \<and> ((\<forall>j p. j < length (rpc_argNames rpcFunc)
            \<longrightarrow> params (rpc_argNames rpcFunc ! j) = Some p \<longrightarrow> p \<noteq> []
            \<longrightarrow> (\<exists>v. amino_UnmarshalJSON c (rpc_args rpcFunc ! (j + off)) p = Inr v))
        \<longrightarrow> (\<exists>vs. mapParamsToArgs c rpcFunc params off = Ok vs
              \<and> length vs = length (rpc_argNames rpcFunc)
              \<and> (\<forall>j < length (rpc_argNames rpcFunc).
                    case params (rpc_argNames rpcFunc ! j) of
                      Some p \<Rightarrow>
                        if p \<noteq> [] then
                          amino_UnmarshalJSON c (rpc_args rpcFunc ! (j + off)) p
                            = Inr (Interface_of (vs ! j))
                          \<and> Type_of (vs ! j) = rpc_args rpcFunc ! (j + off)
                        else vs ! j = Zero (rpc_args rpcFunc ! (j + off))
                    | None \<Rightarrow> vs ! j = Zero (rpc_args rpcFunc ! (j + off)))))"
proof (intro conjI impI)
  assume "\<exists>j p e. j < length (rpc_argNames rpcFunc)
          \<and> params (rpc_argNames rpcFunc ! j) = Some p \<and> p \<noteq> []
          \<and> amino_UnmarshalJSON c (rpc_args rpcFunc ! (j + off)) p = Inl e"
  then obtain j p e where
    "j < length (rpc_argNames rpcFunc)" "params (rpc_argNames rpcFunc ! j) = Some p"
    "p \<noteq> []" "amino_UnmarshalJSON c (rpc_args rpcFunc ! (j + off)) p = Inl e"
    by blast
  with assms mapParamsToArgs_from_fails[of 0 "rpc_argNames rpcFunc" off rpcFunc j params p c e]
  show "\<exists>e'. mapParamsToArgs c rpcFunc params off = Fail e'"
    by (simp add: mapParamsToArgs_def)
next
  assume dec: "\<forall>j p. j < length (rpc_argNames rpcFunc)
            \<longrightarrow> params (rpc_argNames rpcFunc ! j) = Some p \<longrightarrow> p \<noteq> []
            \<longrightarrow> (\<exists>v. amino_UnmarshalJSON c (rpc_args rpcFunc ! (j + off)) p = Inr v)"
  with assms mapParamsToArgs_from_total[of 0 "rpc_argNames rpcFunc" off rpcFunc params c]
  obtain vs where vs: "mapParamsToArgs_from c rpcFunc params off 0 (rpc_argNames rpcFunc) = Ok vs"
    by auto
  have "length vs = length (rpc_argNames rpcFunc)"
    using mapParamsToArgs_from_length[OF vs] .
  moreover have "\<forall>j < length (rpc_argNames rpcFunc).
      case params (rpc_argNames rpcFunc ! j) of
        Some p \<Rightarrow>
          if p \<noteq> [] then
            amino_UnmarshalJSON c (rpc_args rpcFunc ! (j + off)) p = Inr (Interface_of (vs ! j))
            \<and> Type_of (vs ! j) = rpc_args rpcFunc ! (j + off)
          else vs ! j = Zero (rpc_args rpcFunc ! (j + off))
      | None \<Rightarrow> vs ! j = Zero (rpc_args rpcFunc ! (j + off))"
  proof (intro allI impI)
    fix j assume "j < length (rpc_argNames rpcFunc)"
    from mapParamsToArgs_from_nth[OF vs this]
    show "case params (rpc_argNames rpcFunc ! j) of
        Some p \<Rightarrow>
          if p \<noteq> [] then
            amino_UnmarshalJSON c (rpc_args rpcFunc ! (j + off)) p = Inr (Interface_of (vs ! j))
            \<and> Type_of (vs ! j) = rpc_args rpcFunc ! (j + off)
          else vs ! j = Zero (rpc_args rpcFunc ! (j + off))
      | None \<Rightarrow> vs ! j = Zero (rpc_args rpcFunc ! (j + off))"
      by (auto split: option.splits if_splits)
  qed
  ultimately show "\<exists>vs. mapParamsToArgs c rpcFunc params off = Ok vs
      \<and> length vs = length (rpc_argNames rpcFunc)
      \<and> (\<forall>j < length (rpc_argNames rpcFunc).
            case params (rpc_argNames rpcFunc ! j) of
              Some p \<Rightarrow>
                if p \<noteq> [] then
                  amino_UnmarshalJSON c (rpc_args rpcFunc ! (j + off)) p
                    = Inr (Interface_of (vs ! j))
                  \<and> Type_of (vs ! j) = rpc_args rpcFunc ! (j + off)
                else vs ! j = Zero (rpc_args rpcFunc ! (j + off))
            | None \<Rightarrow> vs ! j = Zero (rpc_args rpcFunc ! (j + off)))"
    using vs by (simp add: mapParamsToArgs_def)
qed

theorem mapParamsToArgs_decodes_present_zeroes_absent_witness:
  \<open>length (rpc_argNames Echo) + 1 \<le> length (rpc_args Echo)
   \<and> mapParamsToArgs example_codec Echo [''s'' \<mapsto> ''"hi"''] 1 = Ok [RValue TString (VString ''hi'')]
   \<and> mapParamsToArgs example_codec Echo Map.empty 1 = Ok [Zero TString]
   \<and> mapParamsToArgs example_codec Echo [''s'' \<mapsto> ''''] 1 = Ok [Zero TString]
   \<and> (\<exists>e. mapParamsToArgs example_codec Echo [''s'' \<mapsto> ''42''] 1 = Fail e)\<close>
proof -
  have h: "length (rpc_argNames Echo) + 1 \<le> length (rpc_args Echo)"
    by (simp add: Echo_def)
  note good = mapParamsToArgs_decodes_present_zeroes_absent
                [OF h, of \<open>[''s'' \<mapsto> ''"hi"'']\<close> example_codec]
  note bad = mapParamsToArgs_decodes_present_zeroes_absent
                [OF h, of \<open>[''s'' \<mapsto> ''42'']\<close> example_codec]
  show ?thesis
    using h good bad
    by (simp add: mapParamsToArgs_def Echo_def example_codec_def example_unmarshal_def Zero_def)
qed

section \<open>The JSON-RPC batch loop\<close>

text \<open>
  Facts about the loop of \<^verbatim>\<open>makeJSONRPCHandler\<close>: the accumulator only grows at its end,
  a notification changes nothing, each response carries the id of its request, and when
  no iteration panics the responses are those of the requests with an id, in order.
\<close>

lemma jsonrpc_loop_acc:
  "jsonrpc_loop c funcMap r reqs acc =
     (case jsonrpc_loop c funcMap r reqs [] of Inl q \<Rightarrow> Inl q | Inr rs \<Rightarrow> Inr (acc @ rs))"
proof (induction reqs arbitrary: acc)
  case Nil
  then show ?case by simp
next
  case (Cons a reqs)
  show ?case
  proof (cases "jsonrpc_request c funcMap r a")
    case Skip
    then show ?thesis using Cons.IH[of acc] by simp
  next
    case (Respond resp)
    then show ?thesis
      using Cons.IH[of "acc @ [resp]"] Cons.IH[of "[resp]"]
      by (simp split: sum.splits)
  next
    case (Fault q)
    then show ?thesis by simp
  qed
qed

lemma jsonrpc_loop_skip_notification:
  "ID n = [] \<Longrightarrow>
   jsonrpc_loop c funcMap r (xs @ n # ys) acc = jsonrpc_loop c funcMap r (xs @ ys) acc"
  by (induction xs arbitrary: acc) (auto simp: jsonrpc_request_def split: step.splits)

lemma jsonrpc_request_id:
  "jsonrpc_request c funcMap r q = Respond resp \<Longrightarrow> response_id resp = ID q"
  by (auto simp: jsonrpc_request_def RPCInvalidRequestError_def RPCMethodNotFoundError_def
        RPCInvalidParamsError_def RPCInternalError_def NewRPCSuccessResponse_def Let_def
      split: if_splits option.splits result.splits call_result.splits)

lemma jsonrpc_request_Skip:
  "jsonrpc_request c funcMap r q = Skip \<longleftrightarrow> ID q = []"
  by (auto simp: jsonrpc_request_def Let_def
      split: if_splits option.splits result.splits call_result.splits)

lemma jsonrpc_loop_in_order:
  "\<forall>q\<in>set reqs. \<forall>p. jsonrpc_request c funcMap r q \<noteq> Fault p \<Longrightarrow>
   \<exists>rs. jsonrpc_loop c funcMap r reqs [] = Inr rs
      \<and> map Respond rs = map (jsonrpc_request c funcMap r) (filter (\<lambda>q. ID q \<noteq> []) reqs)"
proof (induction reqs)
  case Nil
  then show ?case by simp
next
  case (Cons a reqs)
  then obtain rs where rs: "jsonrpc_loop c funcMap r reqs [] = Inr rs"
    and ord: "map Respond rs = map (jsonrpc_request c funcMap r) (filter (\<lambda>q. ID q \<noteq> []) reqs)"
    by auto
  show ?case
  proof (cases "jsonrpc_request c funcMap r a")
    case Skip
    with rs ord jsonrpc_request_Skip[of c funcMap r a] show ?thesis by simp
  next
    case (Respond resp)
    with jsonrpc_request_Skip[of c funcMap r a] have "ID a \<noteq> []" by auto
    with Respond rs ord jsonrpc_loop_acc[of c funcMap r reqs "[resp]"] show ?thesis by simp
  next
    case (Fault q)
    with Cons.prems show ?thesis by simp
  qed
qed

lemma map_Respond_ids:
  "map Respond rs = map (jsonrpc_request c funcMap r) qs \<Longrightarrow> map response_id rs = map ID qs"
proof (induction rs arbitrary: qs)
  case Nil
  then show ?case by simp
next
  case (Cons a rs)
  then obtain q qs' where qs: "qs = q # qs'" by (cases qs) auto
  with Cons.prems have "jsonrpc_request c funcMap r q = Respond a"
    and "map Respond rs = map (jsonrpc_request c funcMap r) qs'" by auto
  with Cons.IH[of qs'] jsonrpc_request_id[of c funcMap r q a] qs show ?case by simp
qed

lemma jsonrpc_request_Body:
  "jsonrpc_request c funcMap (r\<lparr>Body := x\<rparr>) q = jsonrpc_request c funcMap r q"
  by (simp add: jsonrpc_request_def)

lemma jsonrpc_loop_Body:
  "jsonrpc_loop c funcMap (r\<lparr>Body := x\<rparr>) reqs acc = jsonrpc_loop c funcMap r reqs acc"
  by (induction reqs arbitrary: acc) (simp_all add: jsonrpc_request_Body split: step.splits)

lemma example_batch:
  \<open>jsonrpc_endpoint example_codec example_funcMap
       \<lparr>Path = ''/'',
        Body = Inr ''[{"id":"1","method":"Echo","params":["a"]},{"id":"","method":"Echo","params":["b"]},{"id":"2","method":"Missing"}]'',
        GetParam = (\<lambda>name. [])\<rparr>
     = WriteRPCResponseArrayHTTP [Success ''1'' (VString ''a''), Failure ''2'' MethodNotFound None]\<close>
  by code_simp

lemma jsonrpc_loop_Inr_no_fault:
  "jsonrpc_loop c funcMap r reqs acc = Inr rs \<Longrightarrow>
   \<forall>q\<in>set reqs. \<forall>p. jsonrpc_request c funcMap r q \<noteq> Fault p"
  by (induction reqs arbitrary: acc) (auto split: step.splits)

lemma jsonrpc_loop_fault:
  "\<exists>q\<in>set reqs. \<exists>p. jsonrpc_request c funcMap r q = Fault p \<Longrightarrow>
   \<exists>p. jsonrpc_loop c funcMap r reqs acc = Inl p"
  using jsonrpc_loop_Inr_no_fault[of c funcMap r reqs acc]
  by (cases "jsonrpc_loop c funcMap r reqs acc") auto

lemma jsonrpc_endpoint_array_in_order:
  assumes h: "Path r = ''/'' \<and> Body r = Inr b \<and> b \<noteq> [] \<and> json_requests c b = Inr reqs
         \<and> jsonrpc_endpoint c funcMap r = WriteRPCResponseArrayHTTP responses"
  shows "map Respond responses
              = map (jsonrpc_request c funcMap r) (filter (\<lambda>q. ID q \<noteq> []) reqs)
          \<and> map response_id responses = map ID (filter (\<lambda>q. ID q \<noteq> []) reqs)"
proof -
  from h have rs: "jsonrpc_loop c funcMap r reqs [] = Inr responses"
    by (auto simp: jsonrpc_endpoint_def handleInvalidJSONRPCPaths_def makeJSONRPCHandler_def
          split: sum.splits if_splits)
  from jsonrpc_loop_in_order[OF jsonrpc_loop_Inr_no_fault[OF rs]] rs
  have ord: "map Respond responses
              = map (jsonrpc_request c funcMap r) (filter (\<lambda>q. ID q \<noteq> []) reqs)"
    by simp
  with map_Respond_ids[OF ord] show ?thesis by simp
qed

lemma jsonrpc_endpoint_panics:
  assumes h: "Path r = ''/'' \<and> Body r = Inr b \<and> b \<noteq> [] \<and> json_requests c b = Inr reqs
         \<and> (\<exists>q\<in>set reqs. \<exists>p. jsonrpc_request c funcMap r q = Fault p)"
  shows "\<exists>p. jsonrpc_endpoint c funcMap r = HandlerPanic p"
proof -
  from h jsonrpc_loop_fault[of reqs c funcMap r "[]"]
  obtain p where "jsonrpc_loop c funcMap r reqs [] = Inl p" by blast
  with h show ?thesis
    by (simp add: jsonrpc_endpoint_def handleInvalidJSONRPCPaths_def makeJSONRPCHandler_def)
qed

text \<open>
  What the endpoint installed at \<^verbatim>\<open>/\<close> does with a non-empty body that decodes as an
  array of requests:
  \<^item> when no iteration of the loop panics, the output is the array of the responses of the
    requests that have a non-empty id, one per such request and in the order of the
    requests (nothing is written when there is none), each response carrying the id of
    its request; a request with an empty id contributes no entry;
  \<^item> whenever the endpoint writes an array, it is that array; the only other outcome is
    that an iteration panics, and then the panic leaves the handler and nothing is
    written;
  \<^item> removing a notification from the batch, at any position, leaves the output of the
    endpoint unchanged (panics included);
  \<^item> the batch \<^verbatim>\<open>[{id:"1",method:"Echo",params:["a"]}, {id:"",method:"Echo",params:["b"]},
    {id:"2",method:"Missing"}]\<close> yields exactly the array
    \<^verbatim>\<open>[{id:"1",result:"a"}, {id:"2",error:MethodNotFound}]\<close>.
\<close>

lemma jsonrpc_batch_outputs:
  \<open>(Path r = ''/'' \<and> Body r = Inr b \<and> b \<noteq> [] \<and> json_requests c b = Inr reqs
      \<and> (\<forall>q\<in>set reqs. \<forall>p. jsonrpc_request c funcMap r q \<noteq> Fault p)
     \<longrightarrow> (\<exists>responses.
            jsonrpc_endpoint c funcMap r
              = (if responses = [] then NoResponse else WriteRPCResponseArrayHTTP responses)
          \<and> map Respond responses
              = map (jsonrpc_request c funcMap r) (filter (\<lambda>q. ID q \<noteq> []) reqs)
          \<and> map response_id responses = map ID (filter (\<lambda>q. ID q \<noteq> []) reqs)))
   \<and> (\<forall>responses.
         Path r = ''/'' \<and> Body r = Inr b \<and> b \<noteq> [] \<and> json_requests c b = Inr reqs
         \<and> jsonrpc_endpoint c funcMap r = WriteRPCResponseArrayHTTP responses
         \<longrightarrow> map Respond responses
               = map (jsonrpc_request c funcMap r) (filter (\<lambda>q. ID q \<noteq> []) reqs)
           \<and> map response_id responses = map ID (filter (\<lambda>q. ID q \<noteq> []) reqs))
   \<and> (Path r = ''/'' \<and> Body r = Inr b \<and> b \<noteq> [] \<and> json_requests c b = Inr reqs
        \<and> (\<exists>q\<in>set reqs. \<exists>p. jsonrpc_request c funcMap r q = Fault p)
       \<longrightarrow> (\<exists>p. jsonrpc_endpoint c funcMap r = HandlerPanic p))
   \<and> (\<forall>xs n ys b'.
         Path r = ''/'' \<and> Body r = Inr b \<and> b \<noteq> [] \<and> b' \<noteq> [] \<and> ID n = []
         \<and> json_requests c b = Inr (xs @ n # ys) \<and> json_requests c b' = Inr (xs @ ys)
         \<longrightarrow> jsonrpc_endpoint c funcMap r = jsonrpc_endpoint c funcMap (r\<lparr>Body := Inr b'\<rparr>))
   \<and> jsonrpc_endpoint example_codec example_funcMap
        \<lparr>Path = ''/'',
         Body = Inr ''[{"id":"1","method":"Echo","params":["a"]},{"id":"","method":"Echo","params":["b"]},{"id":"2","method":"Missing"}]'',
         GetParam = (\<lambda>name. [])\<rparr>
       = WriteRPCResponseArrayHTTP
           [Success ''1'' (VString ''a''), Failure ''2'' MethodNotFound None]\<close>
proof (intro conjI impI allI)
  assume h: "Path r = ''/'' \<and> Body r = Inr b \<and> b \<noteq> [] \<and> json_requests c b = Inr reqs
      \<and> (\<forall>q\<in>set reqs. \<forall>p. jsonrpc_request c funcMap r q \<noteq> Fault p)"
  then obtain rs where rs: "jsonrpc_loop c funcMap r reqs [] = Inr rs"
    and ord: "map Respond rs
                = map (jsonrpc_request c funcMap r) (filter (\<lambda>q. ID q \<noteq> []) reqs)"
    using jsonrpc_loop_in_order[of reqs c funcMap r] by blast
  have out: "jsonrpc_endpoint c funcMap r
               = (if rs = [] then NoResponse else WriteRPCResponseArrayHTTP rs)"
    using h rs
    by (simp add: jsonrpc_endpoint_def handleInvalidJSONRPCPaths_def makeJSONRPCHandler_def)
  from out ord map_Respond_ids[OF ord]
  show "\<exists>responses.
            jsonrpc_endpoint c funcMap r
              = (if responses = [] then NoResponse else WriteRPCResponseArrayHTTP responses)
          \<and> map Respond responses
              = map (jsonrpc_request c funcMap r) (filter (\<lambda>q. ID q \<noteq> []) reqs)
          \<and> map response_id responses = map ID (filter (\<lambda>q. ID q \<noteq> []) reqs)"
    by blast
next
  fix responses
  assume arr: "Path r = ''/'' \<and> Body r = Inr b \<and> b \<noteq> [] \<and> json_requests c b = Inr reqs
         \<and> jsonrpc_endpoint c funcMap r = WriteRPCResponseArrayHTTP responses"
  from jsonrpc_endpoint_array_in_order[OF arr]
  show "map Respond responses
               = map (jsonrpc_request c funcMap r) (filter (\<lambda>q. ID q \<noteq> []) reqs)"
    and "map response_id responses = map ID (filter (\<lambda>q. ID q \<noteq> []) reqs)"
    by simp_all
next
  assume "Path r = ''/'' \<and> Body r = Inr b \<and> b \<noteq> [] \<and> json_requests c b = Inr reqs
        \<and> (\<exists>q\<in>set reqs. \<exists>p. jsonrpc_request c funcMap r q = Fault p)"
  then show "\<exists>p. jsonrpc_endpoint c funcMap r = HandlerPanic p"
    by (rule jsonrpc_endpoint_panics)
next
  fix xs n ys b'
  assume h: "Path r = ''/'' \<and> Body r = Inr b \<and> b \<noteq> [] \<and> b' \<noteq> [] \<and> ID n = []
         \<and> json_requests c b = Inr (xs @ n # ys) \<and> json_requests c b' = Inr (xs @ ys)"
  then have "jsonrpc_loop c funcMap r (xs @ n # ys) [] = jsonrpc_loop c funcMap r (xs @ ys) []"
    using jsonrpc_loop_skip_notification[of n c funcMap r xs ys "[]"] by simp
  with h show "jsonrpc_endpoint c funcMap r = jsonrpc_endpoint c funcMap (r\<lparr>Body := Inr b'\<rparr>)"
    by (simp add: jsonrpc_endpoint_def handleInvalidJSONRPCPaths_def makeJSONRPCHandler_def
          jsonrpc_loop_Body)
next
  show \<open>jsonrpc_endpoint example_codec example_funcMap
        \<lparr>Path = ''/'',
         Body = Inr ''[{"id":"1","method":"Echo","params":["a"]},{"id":"","method":"Echo","params":["b"]},{"id":"2","method":"Missing"}]'',
         GetParam = (\<lambda>name. [])\<rparr>
       = WriteRPCResponseArrayHTTP
           [Success ''1'' (VString ''a''), Failure ''2'' MethodNotFound None]\<close>
    by (rule example_batch)
qed

lemma jsonrpc_batch_outputs_example:
  \<open>json_requests example_codec
       ''[{"id":"1","method":"Echo","params":["a"]},{"id":"","method":"Echo","params":["b"]},{"id":"2","method":"Missing"}]''
     = Inr [\<lparr>ID = ''1'', Method = ''Echo'', Params = ''["a"]''\<rparr>,
            \<lparr>ID = '''', Method = ''Echo'', Params = ''["b"]''\<rparr>,
            \<lparr>ID = ''2'', Method = ''Missing'', Params = ''''\<rparr>]
   \<and> (\<exists>responses.
         jsonrpc_endpoint example_codec example_funcMap
           \<lparr>Path = ''/'',
            Body = Inr ''[{"id":"1","method":"Echo","params":["a"]},{"id":"","method":"Echo","params":["b"]},{"id":"2","method":"Missing"}]'',
            GetParam = (\<lambda>name. [])\<rparr>
           = WriteRPCResponseArrayHTTP responses
         \<and> map response_id responses = [''1'', ''2''])\<close>
proof -
  define b where \<open>b = ''[{"id":"1","method":"Echo","params":["a"]},{"id":"","method":"Echo","params":["b"]},{"id":"2","method":"Missing"}]''\<close>
  define r where "r = \<lparr>Path = ''/'', Body = Inr b, GetParam = (\<lambda>name. [])\<rparr>"
  define q1 where \<open>q1 = \<lparr>ID = ''1'', Method = ''Echo'', Params = ''["a"]''\<rparr>\<close>
  define q2 where \<open>q2 = \<lparr>ID = '''', Method = ''Echo'', Params = ''["b"]''\<rparr>\<close>
  define q3 where \<open>q3 = \<lparr>ID = ''2'', Method = ''Missing'', Params = ''''\<rparr>\<close>
  have dec: "json_requests example_codec b = Inr [q1, q2, q3]"
    unfolding b_def q1_def q2_def q3_def by (simp add: example_codec_def)
  have s1: "jsonrpc_request example_codec example_funcMap r q1 = Respond (Success ''1'' (VString ''a''))"
    unfolding r_def b_def q1_def by code_simp
  have s2: "jsonrpc_request example_codec example_funcMap r q2 = Skip"
    unfolding r_def b_def q2_def by code_simp
  have s3: "jsonrpc_request example_codec example_funcMap r q3 = Respond (Failure ''2'' MethodNotFound None)"
    unfolding r_def b_def q3_def by code_simp
  have hyp: "Path r = ''/'' \<and> Body r = Inr b \<and> b \<noteq> [] \<and> json_requests example_codec b = Inr [q1, q2, q3]
      \<and> (\<forall>q\<in>set [q1, q2, q3]. \<forall>p. jsonrpc_request example_codec example_funcMap r q \<noteq> Fault p)"
    using dec s1 s2 s3 by (simp add: r_def b_def)
  from jsonrpc_batch_outputs
         [of r b example_codec "[q1, q2, q3]" example_funcMap] hyp
  obtain responses where
    out: "jsonrpc_endpoint example_codec example_funcMap r
            = (if responses = [] then NoResponse else WriteRPCResponseArrayHTTP responses)"
    and ids: "map response_id responses = map ID (filter (\<lambda>q. ID q \<noteq> []) [q1, q2, q3])"
    by blast
  from ids have ids': "map response_id responses = [''1'', ''2'']"
    by (simp add: q1_def q2_def q3_def)
  then have "responses \<noteq> []" by auto
  with out ids' have "\<exists>responses.
      jsonrpc_endpoint example_codec example_funcMap r = WriteRPCResponseArrayHTTP responses
      \<and> map response_id responses = [''1'', ''2'']"
    by auto
  with dec show ?thesis
    unfolding r_def b_def q1_def q2_def q3_def by simp
qed

text \<open>
  C1. For every batch at the endpoint \<^verbatim>\<open>/\<close>, a request with an empty id contributes no
  entry and the responses of the other requests appear in the output array in the order
  of their requests. The code does that only when no call panics. The batch
  \<^verbatim>\<open>[{id:"1",method:"Echo",params:["a"]}, {id:"3",method:"Echo"}, {id:"2",method:"Missing"}]\<close>
  has three requests with an id; on their own the first gets its result and the third
  MethodNotFound, but the second, which has no params, is called with the context alone
  and \<^verbatim>\<open>reflect.Value.Call\<close> panics; \<^verbatim>\<open>makeJSONRPCHandler\<close> has no recover and writes the
  responses only after the loop, so the endpoint writes nothing, not even the response
  to the first request. The sibling paths handle the same call: the per-method HTTP
  handler binds the zero value of the absent parameter and answers, and the WebSocket
  read routine recovers the panic, answers with an internal error and goes on with the
  next request.
\<close>

theorem jsonrpc_batch_lost_when_a_call_panics:
  \<open>json_requests example_codec
       ''[{"id":"1","method":"Echo","params":["a"]},{"id":"3","method":"Echo"},{"id":"2","method":"Missing"}]''
     = Inr [\<lparr>ID = ''1'', Method = ''Echo'', Params = ''["a"]''\<rparr>,
            \<lparr>ID = ''3'', Method = ''Echo'', Params = ''''\<rparr>,
            \<lparr>ID = ''2'', Method = ''Missing'', Params = ''''\<rparr>]
   \<and> map (jsonrpc_request example_codec example_funcMap
              \<lparr>Path = ''/'', Body = Inr [], GetParam = (\<lambda>name. [])\<rparr>)
         [\<lparr>ID = ''1'', Method = ''Echo'', Params = ''["a"]''\<rparr>,
          \<lparr>ID = ''3'', Method = ''Echo'', Params = ''''\<rparr>,
          \<lparr>ID = ''2'', Method = ''Missing'', Params = ''''\<rparr>]
     = [Respond (Success ''1'' (VString ''a'')),
        Fault (PanicStr ''reflect: Call with too few input arguments''),
        Respond (Failure ''2'' MethodNotFound None)]
   \<and> jsonrpc_endpoint example_codec example_funcMap
        \<lparr>Path = ''/'',
         Body = Inr ''[{"id":"1","method":"Echo","params":["a"]},{"id":"3","method":"Echo"},{"id":"2","method":"Missing"}]'',
         GetParam = (\<lambda>name. [])\<rparr>
     = HandlerPanic (PanicStr ''reflect: Call with too few input arguments'')
   \<and> makeHTTPHandler example_codec Echo
        \<lparr>Path = ''/Echo'', Body = Inr [], GetParam = (\<lambda>name. [])\<rparr>
     = WriteRPCResponseHTTP (Success [] (VString []))
   \<and> pushed (readRoutine example_codec example_funcMap
               [Message ''{"id":"7","method":"Echo"}'', Message ''{"id":"4","method":"Missing"}''])
     = [Failure ''unknown'' InternalError
          (Some (ErrRecovered ''reflect: Call with too few input arguments'')),
        Failure ''4'' MethodNotFound None]\<close>
  by code_simp

section \<open>The error class of a binding failure\<close>

text \<open>
  When \<^verbatim>\<open>jsonParamsToArgs\<close> returns an error, the JSON-RPC endpoint answers with
  \<^verbatim>\<open>RPCInvalidParamsError\<close>, the read routine of a WebSocket connection with
  \<^verbatim>\<open>RPCInternalError\<close>.
\<close>

lemma jsonrpc_bind_failure_is_InvalidParams:
  "ID request \<noteq> [] \<Longrightarrow> length (Path r) \<le> 1 \<Longrightarrow> funcMap (Method request) = Some rpcFunc \<Longrightarrow>
   \<not> rpc_ws rpcFunc \<Longrightarrow> Params request \<noteq> [] \<Longrightarrow>
   jsonParamsToArgs c rpcFunc (Params request) = Fail e \<Longrightarrow>
   jsonrpc_request c funcMap r request
     = Respond (Failure (ID request) InvalidParams
         (Some (Wrap e ''error converting json params to arguments'')))"
  by (simp add: jsonrpc_request_def jsonrpc_args_def RPCInvalidParamsError_def)

lemma ws_bind_failure_is_InternalError:
  "json_request c inp = Inr request \<Longrightarrow> ID request \<noteq> [] \<Longrightarrow>
   funcMap (Method request) = Some rpcFunc \<Longrightarrow> Params request \<noteq> [] \<Longrightarrow>
   jsonParamsToArgs c rpcFunc (Params request) = Fail e \<Longrightarrow>
   ws_message c funcMap inp
     = Respond (Failure (ID request) InternalError
         (Some (Wrap e ''error converting json params to arguments'')))"
  by (simp add: ws_message_def ws_args_def RPCInternalError_def)

text \<open>
  C2. A request whose argument binding fails gets a Failure of the class InvalidParams on
  every transport. The read routine of a WebSocket connection does otherwise: for the
  frame \<^verbatim>\<open>{"id":"3","method":"Echo","params":["a","b"]}\<close>, with \<^verbatim>\<open>Echo(ctx, s string)\<close>
  registered, the binding fails on the parameter count and the response pushed has the
  class InternalError, where the JSON-RPC endpoint answers the same request with
  InvalidParams.
\<close>

theorem ws_bind_failure_reported_as_InternalError:
  \<open>json_request example_codec ''{"id":"3","method":"Echo","params":["a","b"]}''
     = Inr \<lparr>ID = ''3'', Method = ''Echo'', Params = ''["a","b"]''\<rparr>
   \<and> jsonParamsToArgs example_codec Echo ''["a","b"]''
       = Fail (ErrParamCount 1 [''s''] 2 [''"a"'', ''"b"''])
   \<and> pushed (readRoutine example_codec example_funcMap
               [Message ''{"id":"3","method":"Echo","params":["a","b"]}''])
       = [Failure ''3'' InternalError
            (Some (Wrap (ErrParamCount 1 [''s''] 2 [''"a"'', ''"b"''])
                     ''error converting json params to arguments''))]
   \<and> jsonrpc_request example_codec example_funcMap
         \<lparr>Path = ''/'', Body = Inr ''{"id":"3","method":"Echo","params":["a","b"]}'',
          GetParam = (\<lambda>name. [])\<rparr>
         \<lparr>ID = ''3'', Method = ''Echo'', Params = ''["a","b"]''\<rparr>
       = Respond (Failure ''3'' InvalidParams
            (Some (Wrap (ErrParamCount 1 [''s''] 2 [''"a"'', ''"b"''])
                     ''error converting json params to arguments'')))\<close>
  by code_simp

section \<open>Faults in the read routine\<close>

text \<open>
  On frames only (no closed quit channel, no read error) the read routine never stops
  the connection and never closes it, whatever the frames make the handlers do.
\<close>

lemma readLoop_messages_never_stop:
  "\<forall>ev\<in>set evs. \<exists>inp. ev = Message inp \<Longrightarrow>
   Stop \<notin> set (readLoop c funcMap evs) \<and> CloseConn \<notin> set (readLoop c funcMap evs)"
proof (induction evs)
  case Nil
  then show ?case by simp
next
  case (Cons ev evs)
  then obtain inp where "ev = Message inp" by auto
  with Cons show ?case by (auto split: step.splits)
qed

text \<open>
  C3, as amended. A panic recovered while the read routine processes a frame is turned
  into one Failure of the class InternalError, pushed with the blocking push
  \<^verbatim>\<open>WriteRPCResponse\<close>; the read routine is then started again and goes on with the frames
  that follow; as long as only frames arrive, the routine neither stops nor closes the
  connection. That Failure carries the fixed id \<^verbatim>\<open>"unknown"\<close>, whatever the id of the
  request that caused the panic.
\<close>

theorem ws_fault_pushes_InternalError_unknown_and_respawns:
  "(ws_message c funcMap inp = Fault q
      \<longrightarrow> readLoop c funcMap (Message inp # evs)
            = [SetReadDeadline,
               WriteRPCResponse (Failure ''unknown'' InternalError (Some (recovered_err q))),
               GoReadRoutine]
              @ readRoutine c funcMap evs)
   \<and> ((\<forall>ev\<in>set evs. \<exists>m. ev = Message m)
        \<longrightarrow> Stop \<notin> set (readRoutine c funcMap evs)
          \<and> CloseConn \<notin> set (readRoutine c funcMap evs))"
  using readLoop_messages_never_stop[of evs c funcMap]
  by (simp add: RPCInternalError_def)

theorem ws_fault_pushes_InternalError_unknown_and_respawns_witness:
  \<open>ws_message example_codec example_funcMap ''{"id":"8","method":"Boom"}'' = Fault (PanicStr ''boom'')
   \<and> readLoop example_codec example_funcMap
        [Message ''{"id":"8","method":"Boom"}'', Message ''{"id":"4","method":"Missing"}'']
       = [SetReadDeadline,
          WriteRPCResponse (Failure ''unknown'' InternalError (Some (ErrRecovered ''boom''))),
          GoReadRoutine, SetPongHandler, SetReadDeadline,
          WriteRPCResponse (Failure ''4'' MethodNotFound None)]
   \<and> Stop \<notin> set (readRoutine example_codec example_funcMap
                     [Message ''{"id":"8","method":"Boom"}'', Message ''{"id":"4","method":"Missing"}''])
   \<and> CloseConn \<notin> set (readRoutine example_codec example_funcMap
                     [Message ''{"id":"8","method":"Boom"}'', Message ''{"id":"4","method":"Missing"}''])\<close>
proof -
  have f: \<open>ws_message example_codec example_funcMap ''{"id":"8","method":"Boom"}''
             = Fault (PanicStr ''boom'')\<close>
    by code_simp
  have m: \<open>readRoutine example_codec example_funcMap [Message ''{"id":"4","method":"Missing"}'']
             = [SetPongHandler, SetReadDeadline,
                WriteRPCResponse (Failure ''4'' MethodNotFound None)]\<close>
    by code_simp
  note t1 = ws_fault_pushes_InternalError_unknown_and_respawns
      [of example_codec example_funcMap \<open>''{"id":"8","method":"Boom"}''\<close> "PanicStr ''boom''"
          \<open>[Message ''{"id":"4","method":"Missing"}'']\<close>]
  note t2 = ws_fault_pushes_InternalError_unknown_and_respawns
      [of example_codec example_funcMap \<open>''{"id":"8","method":"Boom"}''\<close> "PanicStr ''boom''"
          \<open>[Message ''{"id":"8","method":"Boom"}'', Message ''{"id":"4","method":"Missing"}'']\<close>]
  from t1 f m have a: \<open>readLoop example_codec example_funcMap
        [Message ''{"id":"8","method":"Boom"}'', Message ''{"id":"4","method":"Missing"}'']
       = [SetReadDeadline,
          WriteRPCResponse (Failure ''unknown'' InternalError (Some (ErrRecovered ''boom''))),
          GoReadRoutine, SetPongHandler, SetReadDeadline,
          WriteRPCResponse (Failure ''4'' MethodNotFound None)]\<close>
    by simp
  from t2 have b: \<open>Stop \<notin> set (readRoutine example_codec example_funcMap
                     [Message ''{"id":"8","method":"Boom"}'', Message ''{"id":"4","method":"Missing"}''])
   \<and> CloseConn \<notin> set (readRoutine example_codec example_funcMap
                     [Message ''{"id":"8","method":"Boom"}'', Message ''{"id":"4","method":"Missing"}''])\<close>
    by simp
  from f a b show ?thesis by blast
qed

text \<open>
  C3 as the spec states it fails: the frame \<^verbatim>\<open>{"id":"8","method":"Boom"}\<close> decodes, with the id
  \<^verbatim>\<open>"8"\<close>, and its handler panics; the Failure pushed carries the id \<^verbatim>\<open>"unknown"\<close>,
  neither the id of the request nor the empty string.
\<close>

theorem ws_fault_response_id_counterexample:
  \<open>json_request example_codec ''{"id":"8","method":"Boom"}''
     = Inr \<lparr>ID = ''8'', Method = ''Boom'', Params = ''''\<rparr>
   \<and> ws_message example_codec example_funcMap ''{"id":"8","method":"Boom"}''
       = Fault (PanicStr ''boom'')
   \<and> map response_id
        (pushed (readRoutine example_codec example_funcMap [Message ''{"id":"8","method":"Boom"}'']))
       = [''unknown'']
   \<and> ''unknown'' \<noteq> ''8'' \<and> ''unknown'' \<noteq> ''''\<close>
  by code_simp

section \<open>The keepalive reply channel\<close>

text \<open>A ping that finds the channel full is dropped.\<close>

lemma pingHandler_full: "pingHandler [p] m = [p]"
  by (simp add: pingHandler_def)

lemma foldl_pingHandler_full: "foldl pingHandler [p] ms = [p]"
  by (induction ms) (simp_all add: pingHandler_full)

text \<open>
  C4, as amended. While a reply is pending on the channel \<^verbatim>\<open>pongs\<close> (capacity 1), a burst
  of pings leaves exactly one outstanding reply: the one that was pending, that is the
  earliest one; the later pings are dropped, and the write loop receives the earliest
  message and finds the channel empty after it. A burst that meets an empty channel
  leaves its first ping.
\<close>

theorem ping_burst_keeps_earliest_reply:
  "foldl pingHandler [p] ms = [p]
   \<and> recv_pong (foldl pingHandler [p] ms) = Some (p, [])
   \<and> foldl pingHandler [] (m # ms) = [m]
   \<and> recv_pong (foldl pingHandler [] (m # ms)) = Some (m, [])"
  by (simp add: foldl_pingHandler_full recv_pong_def pingHandler_def)

text \<open>
  C4 as the spec states it fails: with the reply to \<^verbatim>\<open>ping1\<close> pending, the pings \<^verbatim>\<open>ping2\<close> and
  \<^verbatim>\<open>ping3\<close> leave \<^verbatim>\<open>ping1\<close> on the channel, not the latest, \<^verbatim>\<open>ping3\<close>.
\<close>

theorem ping_burst_latest_counterexample:
  "foldl pingHandler [''ping1''] [''ping2'', ''ping3''] = [''ping1'']
   \<and> recv_pong (foldl pingHandler [''ping1''] [''ping2'', ''ping3'']) \<noteq> Some (''ping3'', [])"
  by (simp add: pingHandler_def recv_pong_def)

section \<open>Malformed bodies and unknown methods\<close>

text \<open>
  C5, as amended. For every non-empty body that decodes neither as an array of requests
  nor as a single request, \<^verbatim>\<open>makeJSONRPCHandler\<close> (and the endpoint at \<^verbatim>\<open>/\<close>) writes exactly
  one response, a ParseError with an empty id, whatever the registry holds: no request is
  processed.
\<close>

theorem malformed_body_single_ParseError:
  "Body r = Inr b \<and> b \<noteq> [] \<and> json_requests c b = Inl e1 \<and> json_request c b = Inl e2
   \<longrightarrow> makeJSONRPCHandler c funcMap r
         = WriteRPCResponseHTTP
             (Failure [] ParseError (Some (Wrap e2 ''error unmarshalling request'')))
       \<and> (Path r = ''/'' \<longrightarrow>
            jsonrpc_endpoint c funcMap r
              = WriteRPCResponseHTTP
                  (Failure [] ParseError (Some (Wrap e2 ''error unmarshalling request''))))"
  by (simp add: makeJSONRPCHandler_def jsonrpc_endpoint_def handleInvalidJSONRPCPaths_def
        RPCParseError_def)

theorem malformed_body_single_ParseError_witness:
  "Body \<lparr>Path = ''/'', Body = Inr ''{oops'', GetParam = (\<lambda>name. [])\<rparr> = Inr ''{oops''
   \<and> json_requests example_codec ''{oops'' = Inl (Err ''cannot unmarshal into []RPCRequest'')
   \<and> json_request example_codec ''{oops'' = Inl (Err ''cannot unmarshal into RPCRequest'')
   \<and> jsonrpc_endpoint example_codec example_funcMap
        \<lparr>Path = ''/'', Body = Inr ''{oops'', GetParam = (\<lambda>name. [])\<rparr>
       = WriteRPCResponseHTTP
           (Failure [] ParseError
              (Some (Wrap (Err ''cannot unmarshal into RPCRequest'')
                       ''error unmarshalling request'')))"
proof -
  have d1: "json_requests example_codec ''{oops'' = Inl (Err ''cannot unmarshal into []RPCRequest'')"
    by (simp add: example_codec_def)
  have d2: "json_request example_codec ''{oops'' = Inl (Err ''cannot unmarshal into RPCRequest'')"
    by (simp add: example_codec_def)
  from malformed_body_single_ParseError
         [of "\<lparr>Path = ''/'', Body = Inr ''{oops'', GetParam = (\<lambda>name. [])\<rparr>" "''{oops''"
             example_codec "Err ''cannot unmarshal into []RPCRequest''"
             "Err ''cannot unmarshal into RPCRequest''" example_funcMap]
       d1 d2
  show ?thesis by simp
qed

text \<open>
  C5 as the spec states it fails at the empty body: it decodes neither as an array nor as a
  single request, and the endpoint answers with the listing of the endpoints, not with a
  ParseError.
\<close>

theorem empty_body_counterexample:
  "json_requests example_codec [] = Inl (Err ''cannot unmarshal into []RPCRequest'')
   \<and> json_request example_codec [] = Inl (Err ''cannot unmarshal into RPCRequest'')
   \<and> jsonrpc_endpoint example_codec example_funcMap
        \<lparr>Path = ''/'', Body = Inr [], GetParam = (\<lambda>name. [])\<rparr>
       = ListOfEndpoints"
  by (simp add: example_codec_def jsonrpc_endpoint_def handleInvalidJSONRPCPaths_def
        makeJSONRPCHandler_def)

text \<open>
  C6. A request with a non-empty id whose method is not registered, or is registered as
  WebSocket-only, gets from the loop of the JSON-RPC endpoint (whose path is \<^verbatim>\<open>/\<close>) the
  response MethodNotFound with the id of the request, and sent alone it is the only
  response written; on a WebSocket connection a request with a non-empty id that names an
  unregistered method gets MethodNotFound with its id, pushed onto the write channel.
\<close>

theorem unknown_method_MethodNotFound_same_id:
  "(ID request \<noteq> [] \<and> length (Path r) \<le> 1
      \<and> (funcMap (Method request) = None
          \<or> (\<exists>rpcFunc. funcMap (Method request) = Some rpcFunc \<and> rpc_ws rpcFunc))
     \<longrightarrow> jsonrpc_request c funcMap r request
           = Respond (Failure (ID request) MethodNotFound None))
   \<and> (ID request \<noteq> [] \<and> Path r = ''/'' \<and> Body r = Inr b \<and> b \<noteq> []
        \<and> json_requests c b = Inl e \<and> json_request c b = Inr request
        \<and> (funcMap (Method request) = None
            \<or> (\<exists>rpcFunc. funcMap (Method request) = Some rpcFunc \<and> rpc_ws rpcFunc))
     \<longrightarrow> jsonrpc_endpoint c funcMap r
           = WriteRPCResponseArrayHTTP [Failure (ID request) MethodNotFound None])
   \<and> (json_request c inp = Inr request \<and> ID request \<noteq> []
        \<and> funcMap (Method request) = None
     \<longrightarrow> ws_message c funcMap inp = Respond (Failure (ID request) MethodNotFound None)
       \<and> readLoop c funcMap (Message inp # evs)
           = SetReadDeadline # WriteRPCResponse (Failure (ID request) MethodNotFound None)
               # readLoop c funcMap evs)"
proof -
  have a: "jsonrpc_request c funcMap r request
             = Respond (Failure (ID request) MethodNotFound None)"
    if "ID request \<noteq> []" "length (Path r) \<le> 1"
       "funcMap (Method request) = None
          \<or> (\<exists>rpcFunc. funcMap (Method request) = Some rpcFunc \<and> rpc_ws rpcFunc)"
    using that by (auto simp: jsonrpc_request_def RPCMethodNotFoundError_def)
  have b: "jsonrpc_endpoint c funcMap r
             = WriteRPCResponseArrayHTTP [Failure (ID request) MethodNotFound None]"
    if "ID request \<noteq> []" "Path r = ''/''" "Body r = Inr b" "b \<noteq> []"
       "json_requests c b = Inl e" "json_request c b = Inr request"
       "funcMap (Method request) = None
          \<or> (\<exists>rpcFunc. funcMap (Method request) = Some rpcFunc \<and> rpc_ws rpcFunc)"
  proof -
    have "jsonrpc_request c funcMap r request
             = Respond (Failure (ID request) MethodNotFound None)"
      using a that by simp
    with that show ?thesis
      by (simp add: jsonrpc_endpoint_def handleInvalidJSONRPCPaths_def makeJSONRPCHandler_def)
  qed
  have w: "ws_message c funcMap inp = Respond (Failure (ID request) MethodNotFound None)"
    if "json_request c inp = Inr request" "ID request \<noteq> []" "funcMap (Method request) = None"
    using that by (simp add: ws_message_def RPCMethodNotFoundError_def)
  show ?thesis
    using a b w by auto
qed

theorem unknown_method_MethodNotFound_same_id_witness:
  \<open>jsonrpc_request example_codec example_funcMap
      \<lparr>Path = ''/'', Body = Inr ''{"id":"4","method":"Missing"}'', GetParam = (\<lambda>name. [])\<rparr>
      \<lparr>ID = ''4'', Method = ''Missing'', Params = ''''\<rparr>
     = Respond (Failure ''4'' MethodNotFound None)
   \<and> jsonrpc_endpoint example_codec example_funcMap
      \<lparr>Path = ''/'', Body = Inr ''{"id":"4","method":"Missing"}'', GetParam = (\<lambda>name. [])\<rparr>
     = WriteRPCResponseArrayHTTP [Failure ''4'' MethodNotFound None]
   \<and> ws_message example_codec example_funcMap ''{"id":"4","method":"Missing"}''
     = Respond (Failure ''4'' MethodNotFound None)\<close>
proof -
  define inp where \<open>inp = ''{"id":"4","method":"Missing"}''\<close>
  define rq where "rq = \<lparr>ID = ''4'', Method = ''Missing'', Params = ''''\<rparr>"
  define r where "r = \<lparr>Path = ''/'', Body = Inr inp, GetParam = (\<lambda>name. [])\<rparr>"
  have d1: "json_requests example_codec inp = Inl (Err ''cannot unmarshal into []RPCRequest'')"
    by (simp add: example_codec_def inp_def)
  have d2: "json_request example_codec inp = Inr rq"
    by (simp add: example_codec_def inp_def rq_def)
  have fm: "example_funcMap (Method rq) = None"
    by (simp add: example_funcMap_def rq_def)
  have "ID rq \<noteq> []" "length (Path r) \<le> 1" "Path r = ''/''" "Body r = Inr inp" "inp \<noteq> []"
    by (simp_all add: rq_def r_def inp_def)
  with unknown_method_MethodNotFound_same_id
         [of rq r example_funcMap example_codec inp
             "Err ''cannot unmarshal into []RPCRequest''" inp "[]"] d1 d2 fm
  have "jsonrpc_request example_codec example_funcMap r rq
          = Respond (Failure (ID rq) MethodNotFound None)
        \<and> jsonrpc_endpoint example_codec example_funcMap r
          = WriteRPCResponseArrayHTTP [Failure (ID rq) MethodNotFound None]
        \<and> ws_message example_codec example_funcMap inp
          = Respond (Failure (ID rq) MethodNotFound None)"
    by simp
  then show ?thesis
    by (simp add: rq_def r_def inp_def)
qed

section \<open>Hexadecimal query values\<close>

text \<open>
  A string that starts with \<^verbatim>\<open>0x\<close> still does after \<^verbatim>\<open>strings.ToLower\<close>; the bytes of
  \<^verbatim>\<open>hello\<close> in hexadecimal; a pattern of decimal digits matches no string that starts
  with \<^verbatim>\<open>0x\<close>.
\<close>

lemma HasPrefix_0x_ToLower:
  "HasPrefix arg ''0x'' \<Longrightarrow> HasPrefix (ToLower arg) ''0x''"
proof -
  assume h: "HasPrefix arg ''0x''"
  then obtain rest where arg: "arg = CHR ''0'' # CHR ''x'' # rest"
    by (cases arg; cases "tl arg") (auto simp: HasPrefix_def)
  show ?thesis
    unfolding arg by (simp add: HasPrefix_def ToLower_def Let_def)
qed

lemma hex_hello: "hex_DecodeString ''68656c6c6f'' = Inr ''hello''"
  by code_simp

lemma example_RE_INT_rejects_hex:
  "HasPrefix arg ''0x'' \<Longrightarrow> \<not> example_RE_INT arg"
proof -
  assume h: "HasPrefix arg ''0x''"
  then obtain rest where arg: "arg = CHR ''0'' # CHR ''x'' # rest"
    by (cases arg; cases "tl arg") (auto simp: HasPrefix_def)
  show ?thesis
    unfolding arg by (simp add: example_RE_INT_def is_digit_def)
qed

text \<open>
  C8. Binding a query value that starts with the prefix \<^verbatim>\<open>0x\<close>
  (\<^verbatim>\<open>_nonJSONStringToArg\<close>):
  \<^item> for a target of kind string, the rest of the value is hex-decoded and the bytes are
    returned as a string (an invalid hex string is an error);
  \<^item> for a byte-slice target, the rest is hex-decoded and the bytes are returned (an
    invalid hex string is an error);
  \<^item> for any other target, the binding fails with the error "got a hex string arg, but
    expected ...", provided the value does not match the integer pattern \<^verbatim>\<open>RE_INT\<close>
    (which is tried first for integer targets, and is declared outside the sources);
  \<^item> \<^verbatim>\<open>0x68656c6c6f\<close> bound against a byte slice gives the bytes of \<^verbatim>\<open>hello\<close>.
\<close>

theorem hex_prefixed_value_binding:
  "(HasPrefix arg ''0x'' \<and> Kind rt = KString
      \<longrightarrow> u_nonJSONStringToArg c rt arg
            = (case hex_DecodeString (drop 2 arg) of
                 Inl e \<Rightarrow> ConvError e
               | Inr bs \<Rightarrow> Converted (RValue TString (VString bs))))
   \<and> (HasPrefix arg ''0x'' \<and> (\<exists>el. rt = TSlice el \<and> Kind el = KUint8)
      \<longrightarrow> u_nonJSONStringToArg c rt arg
            = (case hex_DecodeString (drop 2 arg) of
                 Inl e \<Rightarrow> ConvError e
               | Inr bs \<Rightarrow> Converted (RValue (TSlice TUint8) (VBytes bs))))
   \<and> (HasPrefix arg ''0x'' \<and> Kind rt \<noteq> KString
        \<and> \<not> (\<exists>el. rt = TSlice el \<and> Kind el = KUint8) \<and> \<not> RE_INT c arg
      \<longrightarrow> u_nonJSONStringToArg c rt arg = ConvError (ErrHexKind (Kind rt)))
   \<and> u_nonJSONStringToArg c (TSlice TUint8) ''0x68656c6c6f''
       = Converted (RValue (TSlice TUint8) (VBytes ''hello''))
   \<and> nonJSONStringToArg c (TSlice TUint8) ''0x68656c6c6f''
       = Converted (RValue (TSlice TUint8) (VBytes ''hello''))"
proof -
  have str: "u_nonJSONStringToArg c rt arg
            = (case hex_DecodeString (drop 2 arg) of
                 Inl e \<Rightarrow> ConvError e
               | Inr bs \<Rightarrow> Converted (RValue TString (VString bs)))"
    if "HasPrefix arg ''0x''" "Kind rt = KString"
    using that HasPrefix_0x_ToLower[of arg]
    by (simp add: u_nonJSONStringToArg_def Let_def split: sum.splits)
  have bytes: "u_nonJSONStringToArg c rt arg
            = (case hex_DecodeString (drop 2 arg) of
                 Inl e \<Rightarrow> ConvError e
               | Inr bs \<Rightarrow> Converted (RValue (TSlice TUint8) (VBytes bs)))"
    if "HasPrefix arg ''0x''" "\<exists>el. rt = TSlice el \<and> Kind el = KUint8" for arg rt
    using that HasPrefix_0x_ToLower[of arg]
    by (auto simp: u_nonJSONStringToArg_def Let_def split: sum.splits)
  have other: "u_nonJSONStringToArg c rt arg = ConvError (ErrHexKind (Kind rt))"
    if "HasPrefix arg ''0x''" "Kind rt \<noteq> KString"
       "\<not> (\<exists>el. rt = TSlice el \<and> Kind el = KUint8)" "\<not> RE_INT c arg"
    using that HasPrefix_0x_ToLower[of arg]
    by (cases rt) (simp_all add: u_nonJSONStringToArg_def Let_def)
  have hello: "u_nonJSONStringToArg c (TSlice TUint8) ''0x68656c6c6f''
       = Converted (RValue (TSlice TUint8) (VBytes ''hello''))"
    using bytes[of "''0x68656c6c6f''" "TSlice TUint8"]
    by (simp add: HasPrefix_def hex_hello del: hex_DecodeString.simps)
  from str bytes[of arg rt] other hello show ?thesis by simp
qed

theorem hex_prefixed_value_binding_witness:
  "HasPrefix ''0x4142'' ''0x'' \<and> \<not> RE_INT example_codec ''0x4142''
   \<and> u_nonJSONStringToArg example_codec TString ''0x4142''
       = Converted (RValue TString (VString ''AB''))
   \<and> u_nonJSONStringToArg example_codec (TSlice TUint8) ''0x4142''
       = Converted (RValue (TSlice TUint8) (VBytes ''AB''))
   \<and> u_nonJSONStringToArg example_codec TInt ''0x4142'' = ConvError (ErrHexKind KInt)
   \<and> u_nonJSONStringToArg example_codec TBool ''0x4142'' = ConvError (ErrHexKind KBool)"
proof -
  have p: "HasPrefix ''0x4142'' ''0x''" by (simp add: HasPrefix_def)
  have n: "\<not> RE_INT example_codec ''0x4142''"
    using example_RE_INT_rejects_hex[OF p] by (simp add: example_codec_def)
  have d: "hex_DecodeString ''4142'' = Inr ''AB''" by code_simp
  note s = hex_prefixed_value_binding[of "''0x4142''" TString example_codec]
  note b = hex_prefixed_value_binding[of "''0x4142''" "TSlice TUint8" example_codec]
  note i = hex_prefixed_value_binding[of "''0x4142''" TInt example_codec]
  note o = hex_prefixed_value_binding[of "''0x4142''" TBool example_codec]
  have "u_nonJSONStringToArg example_codec TString ''0x4142''
       = Converted (RValue TString (VString ''AB''))"
    using s p by (simp add: d del: hex_DecodeString.simps)
  moreover have "u_nonJSONStringToArg example_codec (TSlice TUint8) ''0x4142''
       = Converted (RValue (TSlice TUint8) (VBytes ''AB''))"
    using b p by (simp add: d del: hex_DecodeString.simps)
  moreover have "u_nonJSONStringToArg example_codec TInt ''0x4142'' = ConvError (ErrHexKind KInt)"
    using i p n by simp
  moreover have "u_nonJSONStringToArg example_codec TBool ''0x4142'' = ConvError (ErrHexKind KBool)"
    using o p n by simp
  ultimately show ?thesis using p n by blast
qed

section \<open>The dispatcher\<close>

text \<open>\<^verbatim>\<open>unreflectResult\<close> on at least two returned values.\<close>

lemma unreflectResult_cases:
  "unreflectResult (rv # errV # extra)
     = (if \<not> Interface_is_nil errV then Fail (ErrReturned (Interface_of errV))
        else if Kind (Type_of rv) = KInterface then Ok (VPtr (Type_of rv) (Interface_of rv))
        else Ok (Interface_of rv))"
  by (simp add: unreflectResult_def Let_def)

text \<open>
  C9. After a handler invocation that returned (at least) two values, the dispatcher
  reads exactly the first two, the result and the error:
  \<^item> values after the second are not inspected;
  \<^item> a non-nil error value (\<^verbatim>\<open>errV.Interface() != nil\<close>, which includes an error
    that holds a typed nil pointer) is returned as an error built from it
    (\<^verbatim>\<open>errors.New("%v", err)\<close>), never as a panic, and each of the three call sites (the
    JSON-RPC endpoint, the WebSocket read routine, the per-method HTTP handler) answers
    with a Failure of the class InternalError carrying that error;
  \<^item> with a nil error, a result of interface kind is returned as a pointer to a value of
    the interface type holding the result, and that pointer is the result of the Success
    response; a result of any other kind is returned as it is.
\<close>

theorem dispatcher_two_values_error_and_boxing:
  "unreflectResult (rv # errV # extra) = unreflectResult [rv, errV]
   \<and> (\<not> Interface_is_nil errV
        \<longrightarrow> unreflectResult (rv # errV # extra) = Fail (ErrReturned (Interface_of errV)))
   \<and> (Interface_is_nil errV \<and> Kind (Type_of rv) = KInterface
        \<longrightarrow> unreflectResult (rv # errV # extra) = Ok (VPtr (Type_of rv) (Interface_of rv)))
   \<and> (ID request \<noteq> [] \<and> length (Path r) \<le> 1 \<and> funcMap (Method request) = Some rpcFunc
        \<and> \<not> rpc_ws rpcFunc
        \<and> jsonrpc_args c rpcFunc \<lparr>JSONReq = Some request, HTTPReq = True, WSConn = False\<rparr> request
            = Ok as
        \<and> Call rpcFunc as = Returned (rv # errV # extra)
        \<longrightarrow> jsonrpc_request c funcMap r request
              = (if \<not> Interface_is_nil errV
                   then Respond (Failure (ID request) InternalError
                                   (Some (ErrReturned (Interface_of errV))))
                 else if Kind (Type_of rv) = KInterface
                   then Respond (Success (ID request) (VPtr (Type_of rv) (Interface_of rv)))
                 else Respond (Success (ID request) (Interface_of rv))))
   \<and> (json_request c inp = Inr request \<and> ID request \<noteq> []
        \<and> funcMap (Method request) = Some rpcFunc
        \<and> ws_args c rpcFunc \<lparr>JSONReq = Some request, HTTPReq = False, WSConn = True\<rparr> request
            = Ok as
        \<and> Call rpcFunc as = Returned (rv # errV # extra)
        \<longrightarrow> ws_message c funcMap inp
              = (if \<not> Interface_is_nil errV
                   then Respond (Failure (ID request) InternalError
                                   (Some (ErrReturned (Interface_of errV))))
                 else if Kind (Type_of rv) = KInterface
                   then Respond (Success (ID request) (VPtr (Type_of rv) (Interface_of rv)))
                 else Respond (Success (ID request) (Interface_of rv))))
   \<and> (\<not> rpc_ws rpcFunc \<and> httpParamsToArgs c rpcFunc r = Ok fnArgs
        \<and> Call rpcFunc
             (ValueOf_ctx \<lparr>JSONReq = None, HTTPReq = True, WSConn = False\<rparr> # fnArgs)
            = Returned (rv # errV # extra)
        \<longrightarrow> makeHTTPHandler c rpcFunc r
              = (if \<not> Interface_is_nil errV
                   then WriteRPCResponseHTTP
                          (Failure [] InternalError (Some (ErrReturned (Interface_of errV))))
                 else if Kind (Type_of rv) = KInterface
                   then WriteRPCResponseHTTP
                          (Success [] (VPtr (Type_of rv) (Interface_of rv)))
                 else WriteRPCResponseHTTP (Success [] (Interface_of rv))))"
proof (intro conjI impI)
  show "unreflectResult (rv # errV # extra) = unreflectResult [rv, errV]"
    by (simp add: unreflectResult_def)
next
  assume "\<not> Interface_is_nil errV"
  then show "unreflectResult (rv # errV # extra) = Fail (ErrReturned (Interface_of errV))"
    by (simp add: unreflectResult_cases)
next
  assume "Interface_is_nil errV \<and> Kind (Type_of rv) = KInterface"
  then show "unreflectResult (rv # errV # extra) = Ok (VPtr (Type_of rv) (Interface_of rv))"
    by (simp add: unreflectResult_cases)
next
  assume "ID request \<noteq> [] \<and> length (Path r) \<le> 1 \<and> funcMap (Method request) = Some rpcFunc
        \<and> \<not> rpc_ws rpcFunc
        \<and> jsonrpc_args c rpcFunc \<lparr>JSONReq = Some request, HTTPReq = True, WSConn = False\<rparr> request
            = Ok as
        \<and> Call rpcFunc as = Returned (rv # errV # extra)"
  then show "jsonrpc_request c funcMap r request
              = (if \<not> Interface_is_nil errV
                   then Respond (Failure (ID request) InternalError
                                   (Some (ErrReturned (Interface_of errV))))
                 else if Kind (Type_of rv) = KInterface
                   then Respond (Success (ID request) (VPtr (Type_of rv) (Interface_of rv)))
                 else Respond (Success (ID request) (Interface_of rv)))"
    by (simp add: jsonrpc_request_def unreflectResult_cases RPCInternalError_def
          NewRPCSuccessResponse_def)
next
  assume "json_request c inp = Inr request \<and> ID request \<noteq> []
        \<and> funcMap (Method request) = Some rpcFunc
        \<and> ws_args c rpcFunc \<lparr>JSONReq = Some request, HTTPReq = False, WSConn = True\<rparr> request
            = Ok as
        \<and> Call rpcFunc as = Returned (rv # errV # extra)"
  then show "ws_message c funcMap inp
              = (if \<not> Interface_is_nil errV
                   then Respond (Failure (ID request) InternalError
                                   (Some (ErrReturned (Interface_of errV))))
                 else if Kind (Type_of rv) = KInterface
                   then Respond (Success (ID request) (VPtr (Type_of rv) (Interface_of rv)))
                 else Respond (Success (ID request) (Interface_of rv)))"
    by (simp add: ws_message_def unreflectResult_cases RPCInternalError_def
          NewRPCSuccessResponse_def)
next
  assume "\<not> rpc_ws rpcFunc \<and> httpParamsToArgs c rpcFunc r = Ok fnArgs
        \<and> Call rpcFunc
             (ValueOf_ctx \<lparr>JSONReq = None, HTTPReq = True, WSConn = False\<rparr> # fnArgs)
            = Returned (rv # errV # extra)"
  then show "makeHTTPHandler c rpcFunc r
              = (if \<not> Interface_is_nil errV
                   then WriteRPCResponseHTTP
                          (Failure [] InternalError (Some (ErrReturned (Interface_of errV))))
                 else if Kind (Type_of rv) = KInterface
                   then WriteRPCResponseHTTP
                          (Success [] (VPtr (Type_of rv) (Interface_of rv)))
                 else WriteRPCResponseHTTP (Success [] (Interface_of rv)))"
    by (simp add: makeHTTPHandler_def unreflectResult_cases RPCInternalError_def
          NewRPCSuccessResponse_def)
qed

theorem dispatcher_two_values_error_and_boxing_witness:
  \<open>ws_message example_codec example_funcMap ''{"id":"9","method":"Deny"}''
     = Respond (Failure ''9'' InternalError (Some (ErrReturned (VError (Err ''denied'')))))
   \<and> ws_message example_codec example_funcMap ''{"id":"10","method":"Status"}''
     = Respond (Success ''10'' (VPtr (TInterface ''Result'') (VInt 7)))
   \<and> jsonrpc_request example_codec example_funcMap
        \<lparr>Path = ''/'', Body = Inr ''{"id":"9","method":"Deny"}'', GetParam = (\<lambda>name. [])\<rparr>
        \<lparr>ID = ''9'', Method = ''Deny'', Params = ''''\<rparr>
     = Respond (Failure ''9'' InternalError (Some (ErrReturned (VError (Err ''denied'')))))
   \<and> makeHTTPHandler example_codec Status
        \<lparr>Path = ''/Status'', Body = Inr [], GetParam = (\<lambda>name. [])\<rparr>
     = WriteRPCResponseHTTP (Success [] (VPtr (TInterface ''Result'') (VInt 7)))
   \<and> unreflectResult [RValue TString (VString []),
                       RValue (TInterface ''error'') (VNilPtr (TStruct ''MyErr''))]
     = Fail (ErrReturned (VNilPtr (TStruct ''MyErr'')))
   \<and> unreflectResult [RValue TString (VString []), Zero (TPtr (TStruct ''MyErr''))]
     = Fail (ErrReturned (VNilPtr (TStruct ''MyErr'')))\<close>
proof -
  define rq9 where "rq9 = \<lparr>ID = ''9'', Method = ''Deny'', Params = ''''\<rparr>"
  define rq10 where "rq10 = \<lparr>ID = ''10'', Method = ''Status'', Params = ''''\<rparr>"
  define r where \<open>r = \<lparr>Path = ''/'', Body = Inr ''{"id":"9","method":"Deny"}'', GetParam = (\<lambda>name. [])\<rparr>\<close>
  define r' where "r' = \<lparr>Path = ''/Status'', Body = Inr [], GetParam = (\<lambda>name. [])\<rparr>"
  define wctx9 where "wctx9 = \<lparr>JSONReq = Some rq9, HTTPReq = False, WSConn = True\<rparr>"
  define wctx10 where "wctx10 = \<lparr>JSONReq = Some rq10, HTTPReq = False, WSConn = True\<rparr>"
  define hctx9 where "hctx9 = \<lparr>JSONReq = Some rq9, HTTPReq = True, WSConn = False\<rparr>"
  define uctx where "uctx = \<lparr>JSONReq = None, HTTPReq = True, WSConn = False\<rparr>"
  define deny where "deny = [RValue TString (VString []),
                             RValue (TInterface ''error'') (VError (Err ''denied''))]"
  define status where "status = [RValue (TInterface ''Result'') (VInt 7),
                                 RValue (TInterface ''error'') VNil]"
  have d9: \<open>json_request example_codec ''{"id":"9","method":"Deny"}'' = Inr rq9\<close>
    by (simp add: example_codec_def rq9_def)
  have d10: \<open>json_request example_codec ''{"id":"10","method":"Status"}'' = Inr rq10\<close>
    by (simp add: example_codec_def rq10_def)
  have f9: "example_funcMap (Method rq9) = Some Deny"
    by (simp add: example_funcMap_def rq9_def)
  have f10: "example_funcMap (Method rq10) = Some Status"
    by (simp add: example_funcMap_def rq10_def)
  have c9w: "Call Deny [ValueOf_ctx wctx9] = Returned deny"
    by (simp add: Call_def Deny_def deny_def)
  have c9h: "Call Deny [ValueOf_ctx hctx9] = Returned deny"
    by (simp add: Call_def Deny_def deny_def)
  have c10w: "Call Status [ValueOf_ctx wctx10] = Returned status"
    by (simp add: Call_def Status_def status_def)
  have c10u: "Call Status [ValueOf_ctx uctx] = Returned status"
    by (simp add: Call_def Status_def status_def)
  have a9w: "ws_args example_codec Deny wctx9 rq9 = Ok [ValueOf_ctx wctx9]"
    by (simp add: ws_args_def rq9_def)
  have a10w: "ws_args example_codec Status wctx10 rq10 = Ok [ValueOf_ctx wctx10]"
    by (simp add: ws_args_def rq10_def)
  have a9h: "jsonrpc_args example_codec Deny hctx9 rq9 = Ok [ValueOf_ctx hctx9]"
    by (simp add: jsonrpc_args_def rq9_def)
  have au: "httpParamsToArgs example_codec Status r' = Ok []"
    by (simp add: httpParamsToArgs_def Status_def)
  have w9: \<open>ws_message example_codec example_funcMap ''{"id":"9","method":"Deny"}''
     = Respond (Failure ''9'' InternalError (Some (ErrReturned (VError (Err ''denied'')))))\<close>
    using dispatcher_two_values_error_and_boxing
            [of "RValue TString (VString [])"
                "RValue (TInterface ''error'') (VError (Err ''denied''))" "[]"
                rq9 r example_funcMap Deny example_codec "[ValueOf_ctx wctx9]"
                \<open>''{"id":"9","method":"Deny"}''\<close> "[]"]
          d9 f9 c9w a9w
    by (simp add: rq9_def wctx9_def deny_def Interface_is_nil_def)
  have w10: \<open>ws_message example_codec example_funcMap ''{"id":"10","method":"Status"}''
     = Respond (Success ''10'' (VPtr (TInterface ''Result'') (VInt 7)))\<close>
    using dispatcher_two_values_error_and_boxing
            [of "RValue (TInterface ''Result'') (VInt 7)"
                "RValue (TInterface ''error'') VNil" "[]"
                rq10 r example_funcMap Status example_codec "[ValueOf_ctx wctx10]"
                \<open>''{"id":"10","method":"Status"}''\<close> "[]"]
          d10 f10 c10w a10w
    by (simp add: rq10_def wctx10_def status_def Interface_is_nil_def)
  have h9: "jsonrpc_request example_codec example_funcMap r rq9
     = Respond (Failure ''9'' InternalError (Some (ErrReturned (VError (Err ''denied'')))))"
    using dispatcher_two_values_error_and_boxing
            [of "RValue TString (VString [])"
                "RValue (TInterface ''error'') (VError (Err ''denied''))" "[]"
                rq9 r example_funcMap Deny example_codec "[ValueOf_ctx hctx9]"
                \<open>''{"id":"9","method":"Deny"}''\<close> "[]"]
          f9 c9h a9h
    by (simp add: rq9_def hctx9_def deny_def r_def Deny_def Interface_is_nil_def)
  have u10: "makeHTTPHandler example_codec Status r'
     = WriteRPCResponseHTTP (Success [] (VPtr (TInterface ''Result'') (VInt 7)))"
    using dispatcher_two_values_error_and_boxing
            [of "RValue (TInterface ''Result'') (VInt 7)"
                "RValue (TInterface ''error'') VNil" "[]"
                rq10 r' example_funcMap Status example_codec "[]"
                "[]" "[]"]
          c10u au
    by (simp add: uctx_def status_def Status_def Interface_is_nil_def)
  have n1: "unreflectResult [RValue TString (VString []),
                       RValue (TInterface ''error'') (VNilPtr (TStruct ''MyErr''))]
     = Fail (ErrReturned (VNilPtr (TStruct ''MyErr'')))"
    using dispatcher_two_values_error_and_boxing
            [of "RValue TString (VString [])"
                "RValue (TInterface ''error'') (VNilPtr (TStruct ''MyErr''))" "[]"
                rq9 r example_funcMap Deny example_codec "[]" "[]" "[]"]
    by (simp add: Interface_is_nil_def)
  have n2: "unreflectResult [RValue TString (VString []), Zero (TPtr (TStruct ''MyErr''))]
     = Fail (ErrReturned (VNilPtr (TStruct ''MyErr'')))"
    using dispatcher_two_values_error_and_boxing
            [of "RValue TString (VString [])"
                "Zero (TPtr (TStruct ''MyErr''))" "[]"
                rq9 r example_funcMap Deny example_codec "[]" "[]" "[]"]
    by (simp add: Interface_is_nil_def Zero_def)
  from w9 w10 h9 u10 n1 n2 show ?thesis
    by (simp add: rq9_def r_def r'_def)
qed

section \<open>Requests without params\<close>

text \<open>Binding from an empty mapping gives the zero value of every declared parameter.\<close>

lemma mapParamsToArgs_from_empty:
  "i + length names + off \<le> length (rpc_args rpcFunc) \<Longrightarrow>
   mapParamsToArgs_from c rpcFunc Map.empty off i names
     = Ok (map (\<lambda>j. Zero (rpc_args rpcFunc ! (i + j + off))) [0..<length names])"
proof (induction names arbitrary: i)
  case Nil
  then show ?case by simp
next
  case (Cons a names)
  have "mapParamsToArgs_from c rpcFunc Map.empty off (Suc i) names
     = Ok (map (\<lambda>j. Zero (rpc_args rpcFunc ! (Suc i + j + off))) [0..<length names])"
    using Cons.IH[of "Suc i"] Cons.prems by simp
  moreover have "i + off < length (rpc_args rpcFunc)" using Cons.prems by simp
  ultimately show ?case
    by (simp add: map_upt_Suc del: upt_Suc)
qed

text \<open>
  C10. For a JSON-RPC request, over HTTP or WebSocket, whose params payload is absent or
  empty (\<^verbatim>\<open>len(request.Params) = 0\<close>):
  \<^item> the arguments of the call are the context alone, with no bound argument;
  \<^item> for a function that declares a parameter after the context, these are fewer
    arguments than the function takes, and \<^verbatim>\<open>reflect.Value.Call\<close> panics on them; the
    iteration of the JSON-RPC loop, and the processing of the WebSocket frame, end in that
    panic;
  \<^item> the zero values of the mapping payload are substituted only for a non-empty params
    payload: with a payload that decodes as the empty mapping, the call gets the context
    and the zero value of each declared parameter.
\<close>

theorem empty_params_call_with_context_only:
  "(Params request = []
      \<longrightarrow> jsonrpc_args c rpcFunc ctx request = Ok [ValueOf_ctx ctx]
        \<and> ws_args c rpcFunc ctx request = Ok [ValueOf_ctx ctx])
   \<and> (1 < length (rpc_args rpcFunc)
      \<longrightarrow> length [ValueOf_ctx ctx] < length (rpc_args rpcFunc)
        \<and> Call rpcFunc [ValueOf_ctx ctx]
            = Panicked (PanicStr ''reflect: Call with too few input arguments''))
   \<and> (Params request = [] \<and> 1 < length (rpc_args rpcFunc) \<and> ID request \<noteq> []
        \<and> length (Path r) \<le> 1 \<and> funcMap (Method request) = Some rpcFunc \<and> \<not> rpc_ws rpcFunc
      \<longrightarrow> jsonrpc_request c funcMap r request
            = Fault (PanicStr ''reflect: Call with too few input arguments''))
   \<and> (Params request = [] \<and> 1 < length (rpc_args rpcFunc) \<and> json_request c inp = Inr request
        \<and> ID request \<noteq> [] \<and> funcMap (Method request) = Some rpcFunc
      \<longrightarrow> ws_message c funcMap inp
            = Fault (PanicStr ''reflect: Call with too few input arguments''))
   \<and> (Params request \<noteq> [] \<and> json_map c (Params request) = Inr Map.empty
        \<and> length (rpc_argNames rpcFunc) + 1 \<le> length (rpc_args rpcFunc)
      \<longrightarrow> jsonrpc_args c rpcFunc ctx request
            = Ok (ValueOf_ctx ctx
                  # map (\<lambda>j. Zero (rpc_args rpcFunc ! (j + 1)))
                        [0..<length (rpc_argNames rpcFunc)])
        \<and> ws_args c rpcFunc ctx request
            = Ok (ValueOf_ctx ctx
                  # map (\<lambda>j. Zero (rpc_args rpcFunc ! (j + 1)))
                        [0..<length (rpc_argNames rpcFunc)]))"
proof (intro conjI impI)
  assume "Params request = []"
  then show "jsonrpc_args c rpcFunc ctx request = Ok [ValueOf_ctx ctx]"
    and "ws_args c rpcFunc ctx request = Ok [ValueOf_ctx ctx]"
    by (simp_all add: jsonrpc_args_def ws_args_def)
next
  assume "1 < length (rpc_args rpcFunc)"
  then show "length [ValueOf_ctx ctx] < length (rpc_args rpcFunc)"
    and "Call rpcFunc [ValueOf_ctx ctx]
            = Panicked (PanicStr ''reflect: Call with too few input arguments'')"
    by (simp_all add: Call_def)
next
  assume "Params request = [] \<and> 1 < length (rpc_args rpcFunc) \<and> ID request \<noteq> []
        \<and> length (Path r) \<le> 1 \<and> funcMap (Method request) = Some rpcFunc \<and> \<not> rpc_ws rpcFunc"
  then show "jsonrpc_request c funcMap r request
            = Fault (PanicStr ''reflect: Call with too few input arguments'')"
    by (simp add: jsonrpc_request_def jsonrpc_args_def Call_def)
next
  assume "Params request = [] \<and> 1 < length (rpc_args rpcFunc) \<and> json_request c inp = Inr request
        \<and> ID request \<noteq> [] \<and> funcMap (Method request) = Some rpcFunc"
  then show "ws_message c funcMap inp
            = Fault (PanicStr ''reflect: Call with too few input arguments'')"
    by (simp add: ws_message_def ws_args_def Call_def)
next
  assume h: "Params request \<noteq> [] \<and> json_map c (Params request) = Inr Map.empty
        \<and> length (rpc_argNames rpcFunc) + 1 \<le> length (rpc_args rpcFunc)"
  then have "jsonParamsToArgs c rpcFunc (Params request)
      = Ok (map (\<lambda>j. Zero (rpc_args rpcFunc ! (j + 1))) [0..<length (rpc_argNames rpcFunc)])"
    using mapParamsToArgs_from_empty[of 0 "rpc_argNames rpcFunc" 1 rpcFunc c]
    by (simp add: jsonParamsToArgs_def mapParamsToArgs_def)
  with h show "jsonrpc_args c rpcFunc ctx request
            = Ok (ValueOf_ctx ctx
                  # map (\<lambda>j. Zero (rpc_args rpcFunc ! (j + 1)))
                        [0..<length (rpc_argNames rpcFunc)])"
    and "ws_args c rpcFunc ctx request
            = Ok (ValueOf_ctx ctx
                  # map (\<lambda>j. Zero (rpc_args rpcFunc ! (j + 1)))
                        [0..<length (rpc_argNames rpcFunc)])"
    by (simp_all add: jsonrpc_args_def ws_args_def)
qed

theorem empty_params_call_with_context_only_witness:
  \<open>json_request example_codec ''{"id":"7","method":"Echo"}''
     = Inr \<lparr>ID = ''7'', Method = ''Echo'', Params = ''''\<rparr>
   \<and> length (rpc_args Echo) = 2
   \<and> ws_message example_codec example_funcMap ''{"id":"7","method":"Echo"}''
       = Fault (PanicStr ''reflect: Call with too few input arguments'')
   \<and> jsonrpc_request example_codec example_funcMap
        \<lparr>Path = ''/'', Body = Inr ''{"id":"7","method":"Echo"}'', GetParam = (\<lambda>name. [])\<rparr>
        \<lparr>ID = ''7'', Method = ''Echo'', Params = ''''\<rparr>
       = Fault (PanicStr ''reflect: Call with too few input arguments'')
   \<and> jsonrpc_args example_codec Echo \<lparr>JSONReq = None, HTTPReq = True, WSConn = False\<rparr>
        \<lparr>ID = ''6'', Method = ''Echo'', Params = ''{}''\<rparr>
       = Ok [ValueOf_ctx \<lparr>JSONReq = None, HTTPReq = True, WSConn = False\<rparr>, Zero TString]\<close>
proof -
  define rq7 where "rq7 = \<lparr>ID = ''7'', Method = ''Echo'', Params = ''''\<rparr>"
  define rq6 where "rq6 = \<lparr>ID = ''6'', Method = ''Echo'', Params = ''{}''\<rparr>"
  define r where \<open>r = \<lparr>Path = ''/'', Body = Inr ''{"id":"7","method":"Echo"}'', GetParam = (\<lambda>name. [])\<rparr>\<close>
  define ctx where "ctx = \<lparr>JSONReq = None, HTTPReq = True, WSConn = False\<rparr>"
  have d7: \<open>json_request example_codec ''{"id":"7","method":"Echo"}'' = Inr rq7\<close>
    by (simp add: example_codec_def rq7_def)
  have fm7: "example_funcMap (Method rq7) = Some Echo"
    by (simp add: example_funcMap_def rq7_def)
  have len: "length (rpc_args Echo) = 2" "length (rpc_argNames Echo) + 1 \<le> length (rpc_args Echo)"
    "\<not> rpc_ws Echo"
    by (simp_all add: Echo_def)
  have m6: "json_map example_codec (Params rq6) = Inr Map.empty"
    by (simp add: example_codec_def rq6_def)
  note t7 = empty_params_call_with_context_only
              [of rq7 example_codec Echo ctx r example_funcMap \<open>''{"id":"7","method":"Echo"}''\<close>]
  note t6 = empty_params_call_with_context_only
              [of rq6 example_codec Echo ctx r example_funcMap \<open>''{"id":"7","method":"Echo"}''\<close>]
  have w: \<open>ws_message example_codec example_funcMap ''{"id":"7","method":"Echo"}''
       = Fault (PanicStr ''reflect: Call with too few input arguments'')\<close>
    using t7 d7 fm7 len by (simp add: rq7_def)
  have h: "jsonrpc_request example_codec example_funcMap r rq7
       = Fault (PanicStr ''reflect: Call with too few input arguments'')"
    using t7 fm7 len by (simp add: rq7_def r_def)
  have z: "jsonrpc_args example_codec Echo ctx rq6 = Ok [ValueOf_ctx ctx, Zero TString]"
    using t6 m6 len by (simp add: rq6_def Echo_def)
  from d7 len(1) w h z show ?thesis
    by (simp add: rq7_def rq6_def r_def ctx_def)
qed

end
